theory Spec2Isabelle
  imports Main
begin

text \<open>
  The expense commands of the bot: \<^verbatim>\<open>get_amount_and_currency\<close>, \<^verbatim>\<open>decode_expense_params\<close>,
  \<^verbatim>\<open>new_expense\<close> and \<^verbatim>\<open>show_expenses\<close> of \<^verbatim>\<open>bot/utils.py\<close>, as functions of HOL.
  A function that can raise returns a sum, with the exception on the left. A function that
  reads or writes the database takes the tables and returns them where it writes. The
  current date and the table \<^verbatim>\<open>CURRENCY\<close> are parameters.

  The two functions of the standard library that read a number or a date out of text,
  \<^verbatim>\<open>Decimal\<close> and \<^verbatim>\<open>datetime.strptime\<close>, are parameters as well: the functions of
  \<^verbatim>\<open>bot/utils.py\<close> take them as their first arguments, and every theorem about these
  functions holds for every pair of such functions. The operations of Python that the code
  calls come first (strings, lists, the arithmetic of the \<^verbatim>\<open>decimal\<close> module), and with them
  \<open>py_Decimal\<close> and \<open>py_strptime\<close>, the two library functions as CPython 3.11 computes
  them, with which the examples are evaluated.
\<close>

section \<open>Python strings and lists\<close>

text \<open>
  Text is a list of bytes (UTF-8). \<^verbatim>\<open>str.startswith\<close>, \<^verbatim>\<open>str.endswith\<close>,
  \<^verbatim>\<open>str.replace\<close>, \<^verbatim>\<open>str.split\<close> and \<^verbatim>\<open>str.join\<close> compare whole code points, and on
  well-formed UTF-8 a match of bytes is a match of code points, so these operations are
  written once for lists of any element type.
\<close>

definition startswith :: "'a list \<Rightarrow> 'a list \<Rightarrow> bool" where
  "startswith s p = (take (length p) s = p)"

definition endswith :: "'a list \<Rightarrow> 'a list \<Rightarrow> bool" where
  "endswith s p = (length p \<le> length s \<and> drop (length s - length p) s = p)"

text \<open>
  \<^verbatim>\<open>s.replace(old, new)\<close> for a non-empty \<open>old\<close>: one pass from the left, every occurrence
  that does not overlap an earlier one is replaced.
\<close>

function replace_scan :: "'a list \<Rightarrow> 'a list \<Rightarrow> 'a list \<Rightarrow> 'a list" where
  "replace_scan old new s =
     (if old = [] \<or> s = [] then s
      else if startswith s old then new @ replace_scan old new (drop (length old) s)
      else hd s # replace_scan old new (tl s))"
  by pat_completeness auto
termination
  by (relation "measure (\<lambda>(old, new, s). length s)") auto

declare replace_scan.simps [simp del]

text \<open>With an empty \<open>old\<close>, Python puts \<open>new\<close> before every character and at the end.\<close>

definition py_replace :: "'a list \<Rightarrow> 'a list \<Rightarrow> 'a list \<Rightarrow> 'a list" where
  "py_replace s old new =
     (if old = [] then new @ concat (map (\<lambda>c. c # new) s) else replace_scan old new s)"

text \<open>\<^verbatim>\<open>p in s\<close>: \<open>p\<close> occurs in \<open>s\<close> at some position.\<close>

definition contains :: "'a list \<Rightarrow> 'a list \<Rightarrow> bool" where
  "contains s p = list_ex (\<lambda>i. startswith (drop i s) p) [0..<Suc (length s)]"

text \<open>\<^verbatim>\<open>s.split(sep)\<close> for a separator of one character: never an empty result.\<close>

fun py_split :: "'a list \<Rightarrow> 'a \<Rightarrow> 'a list list" where
  "py_split [] sep = [[]]"
| "py_split (c # cs) sep =
     (if c = sep then [] # py_split cs sep
      else (case py_split cs sep of
              [] \<Rightarrow> [[c]]
            | w # ws \<Rightarrow> (c # w) # ws))"

fun py_join :: "'a list \<Rightarrow> 'a list list \<Rightarrow> 'a list" where
  "py_join sep [] = []"
| "py_join sep [x] = x"
| "py_join sep (x # y # ys) = x @ sep @ py_join sep (y # ys)"

text \<open>\<^verbatim>\<open>list.index(x)\<close>: the position of the first occurrence, \<open>None\<close> for \<^verbatim>\<open>ValueError\<close>.\<close>

fun py_index :: "'a list \<Rightarrow> 'a \<Rightarrow> nat option" where
  "py_index [] x = None"
| "py_index (y # ys) x =
     (if y = x then Some 0
      else (case py_index ys x of None \<Rightarrow> None | Some i \<Rightarrow> Some (Suc i)))"

text \<open>\<^verbatim>\<open>list.pop(i)\<close> for \<open>i \<ge> 0\<close>: the element and the shortened list, \<open>None\<close> for \<^verbatim>\<open>IndexError\<close>.\<close>

definition py_pop :: "'a list \<Rightarrow> nat \<Rightarrow> ('a \<times> 'a list) option" where
  "py_pop xs i = (if i < length xs then Some (xs ! i, take i xs @ drop (Suc i) xs) else None)"

subsection \<open>Characters\<close>

text \<open>
  A Python string is a sequence of code points, and the text of this theory is its UTF-8
  encoding. \<open>code_points\<close> reads the code points back; it is \<open>None\<close> for bytes that encode
  no sequence of code points. \<open>utf8 pending acc lo\<close> reads on when \<open>pending\<close> bytes of a
  character are still to come, \<open>acc\<close> holds the bits read so far and \<open>lo\<close> is the least
  code point that takes that many bytes.
\<close>

fun utf8 :: "nat \<Rightarrow> nat \<Rightarrow> nat \<Rightarrow> string \<Rightarrow> nat list option" where
  "utf8 pending acc lo [] = (if pending = 0 then Some [] else None)"
| "utf8 pending acc lo (c # s) =
     (let b = (of_char c :: nat)
      in if pending = 0 then
           (if b < 0x80 then map_option (Cons b) (utf8 0 0 0 s)
            else if 0xC0 \<le> b \<and> b < 0xE0 then utf8 1 (b - 0xC0) 0x80 s
            else if 0xE0 \<le> b \<and> b < 0xF0 then utf8 2 (b - 0xE0) 0x800 s
            else if 0xF0 \<le> b \<and> b < 0xF8 then utf8 3 (b - 0xF0) 0x10000 s
            else None)
         else if 0x80 \<le> b \<and> b < 0xC0 then
           (let cp = acc * 64 + (b - 0x80)
            in if pending = 1 then
                 (if lo \<le> cp \<and> cp < 0x110000 \<and> \<not> (0xD800 \<le> cp \<and> cp < 0xE000)
                  then map_option (Cons cp) (utf8 0 0 0 s)
                  else None)
               else utf8 (pending - 1) cp lo s)
         else None)"

definition code_points :: "string \<Rightarrow> nat list option" where
  "code_points s = utf8 0 0 0 s"

text \<open>The code point of a character of ASCII, to write the characters the parsers look for.\<close>

definition code :: "char \<Rightarrow> nat" where
  "code c = of_char c"

text \<open>
  The decimal digits of Unicode 14 (the characters of category \<^verbatim>\<open>Nd\<close>) come in runs of ten,
  in the order of their values; \<open>decimal_zeros\<close> lists the digit zero of every run.
  \<open>unicode_decimal\<close> is the value of a decimal digit, \<open>None\<close> for any other character.
\<close>

definition decimal_zeros :: "nat list" where
  "decimal_zeros =
     [0x30, 0x660, 0x6F0, 0x7C0, 0x966, 0x9E6, 0xA66, 0xAE6, 0xB66, 0xBE6, 0xC66, 0xCE6,
      0xD66, 0xDE6, 0xE50, 0xED0, 0xF20, 0x1040, 0x1090, 0x17E0, 0x1810, 0x1946, 0x19D0,
      0x1A80, 0x1A90, 0x1B50, 0x1BB0, 0x1C40, 0x1C50, 0xA620, 0xA8D0, 0xA900, 0xA9D0,
      0xA9F0, 0xAA50, 0xABF0, 0xFF10, 0x104A0, 0x10D30, 0x11066, 0x110F0, 0x11136,
      0x111D0, 0x112F0, 0x11450, 0x114D0, 0x11650, 0x116C0, 0x11730, 0x118E0, 0x11950,
      0x11C50, 0x11D50, 0x11DA0, 0x16A60, 0x16AC0, 0x16B50, 0x1D7CE, 0x1D7D8, 0x1D7E2,
      0x1D7EC, 0x1D7F6, 0x1E140, 0x1E2F0, 0x1E950, 0x1FBF0]"

definition unicode_decimal :: "nat \<Rightarrow> nat option" where
  "unicode_decimal cp =
     (case find (\<lambda>z. z \<le> cp \<and> cp < z + 10) decimal_zeros of
        None \<Rightarrow> None
      | Some z \<Rightarrow> Some (cp - z))"

text \<open>The white space of \<^verbatim>\<open>str.isspace\<close>.\<close>

definition unicode_space :: "nat \<Rightarrow> bool" where
  "unicode_space cp =
     (cp \<in> set [0x9, 0xA, 0xB, 0xC, 0xD, 0x1C, 0x1D, 0x1E, 0x1F, 0x20, 0x85, 0xA0, 0x1680,
                 0x2000, 0x2001, 0x2002, 0x2003, 0x2004, 0x2005, 0x2006, 0x2007, 0x2008,
                 0x2009, 0x200A, 0x2028, 0x2029, 0x202F, 0x205F, 0x3000])"

definition strip_space :: "nat list \<Rightarrow> nat list" where
  "strip_space u = rev (dropWhile unicode_space (rev (dropWhile unicode_space u)))"

text \<open>The digits and the letters of ASCII, by their code points.\<close>

definition ascii_digit :: "nat \<Rightarrow> bool" where
  "ascii_digit c = (48 \<le> c \<and> c \<le> 57)"

definition digit_val :: "nat \<Rightarrow> nat" where
  "digit_val c = c - 48"

definition int_of_digits :: "nat list \<Rightarrow> nat" where
  "int_of_digits ds = foldl (\<lambda>n c. 10 * n + digit_val c) 0 ds"

definition lower :: "nat \<Rightarrow> nat" where
  "lower c = (if 65 \<le> c \<and> c \<le> 90 then c + 32 else c)"

fun ndigits :: "nat \<Rightarrow> nat" where
  "ndigits n = (if n < 10 then 1 else Suc (ndigits (n div 10)))"

declare ndigits.simps [simp del]

fun str_nat :: "nat \<Rightarrow> string" where
  "str_nat n =
     (if n < 10 then [''0123456789'' ! n]
      else str_nat (n div 10) @ [''0123456789'' ! (n mod 10)])"

declare str_nat.simps [simp del]

definition str_int :: "int \<Rightarrow> string" where
  "str_int i = (if i < 0 then CHR ''-'' # str_nat (nat (- i)) else str_nat (nat i))"

section \<open>Exceptions\<close>

text \<open>
  \<open>ParameterError\<close> is the repository's own exception (\<^verbatim>\<open>bot.exceptions\<close>); the others are
  the exceptions the \<^verbatim>\<open>decimal\<close> module and \<^verbatim>\<open>round\<close> raise under the default context.
\<close>

datatype exn =
    ParameterError string
  | InvalidOperation
  | DivisionByZero
  | Overflow
  | ValueError
  | OverflowError
  | TypeError
  | KeyError

fun is_ParameterError :: "exn + 'a \<Rightarrow> bool" where
  "is_ParameterError (Inl (ParameterError text)) = True"
| "is_ParameterError r = False"

section \<open>The decimal module\<close>

text \<open>
  A \<^verbatim>\<open>Decimal\<close> is a sign (\<open>True\<close> for minus), a coefficient and an exponent, or one of
  the special values. Arithmetic follows the reference implementation of the module under
  the default context: precision 28, rounding half-even, \<open>Emax = 999999\<close>,
  \<open>Emin = -999999\<close>, traps on \<^verbatim>\<open>InvalidOperation\<close>, \<^verbatim>\<open>DivisionByZero\<close>
  and \<^verbatim>\<open>Overflow\<close>.
\<close>

datatype decimal =
    Finite bool nat int
  | Infinity bool
  | NaN bool nat
  | SNaN bool nat

definition prec :: nat where "prec = 28"
definition Emax :: int where "Emax = 999999"
definition Emin :: int where "Emin = - 999999"
definition Etiny :: int where "Etiny = Emin - int prec + 1"
definition Etop :: int where "Etop = Emax - int prec + 1"

fun dec_sign :: "decimal \<Rightarrow> bool" where
  "dec_sign (Finite s c e) = s"
| "dec_sign (Infinity s) = s"
| "dec_sign (NaN s p) = s"
| "dec_sign (SNaN s p) = s"

fun is_special :: "decimal \<Rightarrow> bool" where
  "is_special (Finite s c e) = False"
| "is_special d = True"

fun is_infinity :: "decimal \<Rightarrow> bool" where
  "is_infinity (Infinity s) = True"
| "is_infinity d = False"

text \<open>\<^verbatim>\<open>bool(d)\<close>: false for a zero only.\<close>

fun dec_bool :: "decimal \<Rightarrow> bool" where
  "dec_bool (Finite s c e) = (c \<noteq> 0)"
| "dec_bool d = True"

subsection \<open>The constructor from a string\<close>

text \<open>
  \<open>py_Decimal v\<close> is \<^verbatim>\<open>Decimal(v)\<close> for a string \<open>v\<close>, as the module \<^verbatim>\<open>_decimal\<close> of CPython 3.11
  computes it on a 64-bit machine; \<open>None\<close> is \<^verbatim>\<open>InvalidOperation\<close> (a conversion syntax
  error). White space is taken from both ends and every underscore is taken out; of what
  is left, a character of ASCII stands for itself, white space becomes a blank, a decimal
  digit of any script becomes the digit of ASCII, and any other character makes the string
  invalid.
\<close>

definition ascii_of :: "nat \<Rightarrow> nat option" where
  "ascii_of cp =
     (if 0 < cp \<and> cp \<le> 127 then Some cp
      else if unicode_space cp then Some 32
      else (case unicode_decimal cp of None \<Rightarrow> None | Some v \<Rightarrow> Some (48 + v)))"

definition numeric_as_ascii :: "nat list \<Rightarrow> nat list option" where
  "numeric_as_ascii u = those (map ascii_of (filter (\<lambda>c. c \<noteq> code (CHR ''_'')) (strip_space u)))"

text \<open>
  Then comes an optional sign and the number, an infinity or a NaN. The value is kept
  exactly, and a number is taken only where the largest context holds it exactly: the
  exponent is at least \<open>MIN_ETINY\<close> and the exponent of the first digit at most \<open>MAX_EMAX\<close>.
\<close>

definition MAX_EMAX :: int where "MAX_EMAX = 999999999999999999"
definition MIN_ETINY :: int where "MIN_ETINY = - 1999999999999999997"

definition split_sign :: "nat list \<Rightarrow> bool \<times> nat list" where
  "split_sign s =
     (case s of
        [] \<Rightarrow> (False, [])
      | c # r \<Rightarrow>
          if c = code (CHR ''-'') then (True, r)
          else if c = code (CHR ''+'') then (False, r)
          else (False, s))"

definition parse_exponent :: "nat list \<Rightarrow> int option" where
  "parse_exponent s =
     (case s of
        [] \<Rightarrow> Some 0
      | c # r \<Rightarrow>
          if lower c = code (CHR ''e'') then
            (case split_sign r of
               (neg, ds) \<Rightarrow>
                 if ds \<noteq> [] \<and> list_all ascii_digit ds
                 then Some (if neg then - int (int_of_digits ds) else int (int_of_digits ds))
                 else None)
          else None)"

definition decimal_of_body :: "bool \<Rightarrow> nat list \<Rightarrow> decimal option" where
  "decimal_of_body sign body =
     (let intpart = takeWhile ascii_digit body;
          r1 = dropWhile ascii_digit body;
          fracpart = (case r1 of [] \<Rightarrow> []
                      | c # r \<Rightarrow> if c = code (CHR ''.'') then takeWhile ascii_digit r else []);
          r2 = (case r1 of [] \<Rightarrow> []
                | c # r \<Rightarrow> if c = code (CHR ''.'') then dropWhile ascii_digit r else r1);
          low = map lower body
      in if intpart @ fracpart \<noteq> [] then
           (case parse_exponent r2 of
              None \<Rightarrow> None
            | Some e \<Rightarrow>
                let coeff = int_of_digits (intpart @ fracpart);
                    ex = e - int (length fracpart)
                in if MIN_ETINY \<le> ex \<and> ex + int (ndigits coeff) - 1 \<le> MAX_EMAX
                   then Some (Finite sign coeff ex)
                   else None)
         else if low = map code ''inf'' \<or> low = map code ''infinity'' then Some (Infinity sign)
         else if startswith low (map code ''nan'') \<and> list_all ascii_digit (drop 3 body)
           then Some (NaN sign (int_of_digits (drop 3 body)))
         else if startswith low (map code ''snan'') \<and> list_all ascii_digit (drop 4 body)
           then Some (SNaN sign (int_of_digits (drop 4 body)))
         else None)"

definition py_Decimal :: "string \<Rightarrow> decimal option" where
  "py_Decimal v =
     (case code_points v of
        None \<Rightarrow> None
      | Some u \<Rightarrow>
          (case numeric_as_ascii u of
             None \<Rightarrow> None
           | Some s \<Rightarrow> (case split_sign s of (sign, body) \<Rightarrow> decimal_of_body sign body)))"

subsection \<open>Arithmetic\<close>

text \<open>
  Rounding half-even when the last \<open>k\<close> digits of a coefficient are dropped.
\<close>

definition round_half_even :: "nat \<Rightarrow> nat \<Rightarrow> nat" where
  "round_half_even c k =
     (let q = c div 10 ^ k; r = c mod 10 ^ k
      in if 2 * r > 10 ^ k \<or> (2 * r = 10 ^ k \<and> odd q) then Suc q else q)"

text \<open>\<^verbatim>\<open>_fix\<close>: bring a result into the context (28 digits, exponent range).\<close>

fun fix_nan :: "decimal \<Rightarrow> decimal" where
  "fix_nan (NaN s p) = NaN s (p mod 10 ^ prec)"
| "fix_nan (SNaN s p) = SNaN s (p mod 10 ^ prec)"
| "fix_nan d = d"

fun dec_fix :: "decimal \<Rightarrow> exn + decimal" where
  "dec_fix (Finite s c e) =
     (if c = 0 then Inr (Finite s 0 (min (max e Etiny) Emax))
      else
        let exp_min0 = int (ndigits c) + e - int prec
        in if exp_min0 > Etop then Inl Overflow
           else
             let exp_min = max exp_min0 Etiny
             in if e < exp_min then
                  let k = nat (exp_min - e);
                      coeff = round_half_even c k;
                      carry = (coeff > c div 10 ^ k \<and> ndigits coeff > prec);
                      coeff' = (if carry then coeff div 10 else coeff);
                      exp_min' = (if carry then exp_min + 1 else exp_min)
                  in if exp_min' > Etop then Inl Overflow
                     else Inr (Finite s coeff' exp_min')
                else Inr (Finite s c e))"
| "dec_fix (Infinity s) = Inr (Infinity s)"
| "dec_fix d = Inr (fix_nan d)"

text \<open>\<^verbatim>\<open>_check_nans\<close>: a signalling NaN raises, a quiet NaN is the result.\<close>

fun is_snan :: "decimal \<Rightarrow> bool" where
  "is_snan (SNaN s p) = True"
| "is_snan d = False"

fun is_qnan :: "decimal \<Rightarrow> bool" where
  "is_qnan (NaN s p) = True"
| "is_qnan d = False"

definition check_nans :: "decimal \<Rightarrow> decimal \<Rightarrow> (exn + decimal) option" where
  "check_nans a b =
     (if is_snan a \<or> is_snan b then Some (Inl InvalidOperation)
      else if is_qnan a then Some (Inr (fix_nan a))
      else if is_qnan b then Some (Inr (fix_nan b))
      else None)"

fun dec_coeff :: "decimal \<Rightarrow> nat" where
  "dec_coeff (Finite s c e) = c"
| "dec_coeff d = 0"

fun dec_exp :: "decimal \<Rightarrow> int" where
  "dec_exp (Finite s c e) = e"
| "dec_exp d = 0"

text \<open>\<^verbatim>\<open>Decimal.__mul__\<close>.\<close>

definition dec_mul :: "decimal \<Rightarrow> decimal \<Rightarrow> exn + decimal" where
  "dec_mul a b =
     (let resultsign = (dec_sign a \<noteq> dec_sign b)
      in if is_special a \<or> is_special b then
           (case check_nans a b of
              Some ans \<Rightarrow> ans
            | None \<Rightarrow>
                if is_infinity a then
                  (if \<not> dec_bool b then Inl InvalidOperation else Inr (Infinity resultsign))
                else
                  (if \<not> dec_bool a then Inl InvalidOperation else Inr (Infinity resultsign)))
         else dec_fix (Finite resultsign (dec_coeff a * dec_coeff b) (dec_exp a + dec_exp b)))"

text \<open>
  \<^verbatim>\<open>a == b\<close>: a signalling NaN raises, a quiet NaN is equal to nothing, and numbers are
  compared by value, so that \<^verbatim>\<open>Decimal('35.0') == Decimal('35.00')\<close>.
\<close>

fun same_value :: "decimal \<Rightarrow> decimal \<Rightarrow> bool" where
  "same_value (Finite s1 c1 e1) (Finite s2 c2 e2) =
     (let m = min e1 e2; n1 = c1 * 10 ^ nat (e1 - m); n2 = c2 * 10 ^ nat (e2 - m)
      in n1 = n2 \<and> (s1 = s2 \<or> n1 = 0))"
| "same_value (Infinity s1) (Infinity s2) = (s1 = s2)"
| "same_value a b = False"

definition dec_eq :: "decimal \<Rightarrow> decimal \<Rightarrow> exn + bool" where
  "dec_eq a b =
     (if is_snan a \<or> is_snan b then Inl InvalidOperation
      else if is_qnan a \<or> is_qnan b then Inr False
      else Inr (same_value a b))"

text \<open>\<^verbatim>\<open>Decimal.__truediv__\<close>.\<close>

function strip_zeros :: "nat \<Rightarrow> int \<Rightarrow> int \<Rightarrow> nat \<times> int" where
  "strip_zeros coeff e ideal_exp =
     (if e < ideal_exp \<and> coeff mod 10 = 0 then strip_zeros (coeff div 10) (e + 1) ideal_exp
      else (coeff, e))"
  by pat_completeness auto
termination
  by (relation "measure (\<lambda>(coeff, e, ideal_exp). nat (ideal_exp - e))") auto

declare strip_zeros.simps [simp del]

definition dec_div :: "decimal \<Rightarrow> decimal \<Rightarrow> exn + decimal" where
  "dec_div a b =
     (let sign = (dec_sign a \<noteq> dec_sign b)
      in if is_special a \<or> is_special b then
           (case check_nans a b of
              Some ans \<Rightarrow> ans
            | None \<Rightarrow>
                if is_infinity a \<and> is_infinity b then Inl InvalidOperation
                else if is_infinity a then Inr (Infinity sign)
                else Inr (Finite sign 0 Etiny))
         else if \<not> dec_bool b then
           (if \<not> dec_bool a then Inl InvalidOperation else Inl DivisionByZero)
         else if \<not> dec_bool a then dec_fix (Finite sign 0 (dec_exp a - dec_exp b))
         else
           let shift = int (ndigits (dec_coeff b)) - int (ndigits (dec_coeff a)) + int prec + 1;
               e = dec_exp a - dec_exp b - shift;
               num = (if shift \<ge> 0 then dec_coeff a * 10 ^ nat shift else dec_coeff a);
               den = (if shift \<ge> 0 then dec_coeff b else dec_coeff b * 10 ^ nat (- shift));
               coeff = num div den;
               remainder = num mod den
           in if remainder \<noteq> 0
              then dec_fix (Finite sign (if coeff mod 5 = 0 then coeff + 1 else coeff) e)
              else (case strip_zeros coeff e (dec_exp a - dec_exp b) of
                      (coeff', e') \<Rightarrow> dec_fix (Finite sign coeff' e')))"

text \<open>
  \<^verbatim>\<open>_rescale\<close> to the exponent \<open>e\<close>, rounding half-even, and \<^verbatim>\<open>quantize\<close> to the exponent of
  \<^verbatim>\<open>Decimal('1E e')\<close>; \<^verbatim>\<open>round(a, n)\<close> is the quantize to \<open>- n\<close>.
\<close>

fun rescale :: "decimal \<Rightarrow> int \<Rightarrow> decimal" where
  "rescale (Finite s c e0) e =
     (if c = 0 then Finite s 0 e
      else if e0 \<ge> e then Finite s (c * 10 ^ nat (e0 - e)) e
      else Finite s (round_half_even c (nat (e - e0))) e)"
| "rescale d e = d"

definition adjusted :: "decimal \<Rightarrow> int" where
  "adjusted a = dec_exp a + int (ndigits (dec_coeff a)) - 1"

definition dec_quantize :: "decimal \<Rightarrow> int \<Rightarrow> exn + decimal" where
  "dec_quantize a e =
     (if is_special a then
        (case check_nans a (Finite False 1 e) of
           Some ans \<Rightarrow> ans
         | None \<Rightarrow> Inl InvalidOperation)
      else if \<not> (Etiny \<le> e \<and> e \<le> Emax) then Inl InvalidOperation
      else if \<not> dec_bool a then dec_fix (Finite (dec_sign a) 0 e)
      else if adjusted a > Emax then Inl InvalidOperation
      else if adjusted a - e + 1 > int prec then Inl InvalidOperation
      else
        let ans = rescale a e
        in if adjusted ans > Emax then Inl InvalidOperation
           else if ndigits (dec_coeff ans) > prec then Inl InvalidOperation
           else dec_fix ans)"

text \<open>\<^verbatim>\<open>round(a)\<close>: the nearest integer, half to even.\<close>

fun dec_round :: "decimal \<Rightarrow> exn + int" where
  "dec_round (Finite s c e) =
     (case rescale (Finite s c e) 0 of
        Finite s' c' e' \<Rightarrow> Inr (if s' then - int c' else int c')
      | _ \<Rightarrow> Inl ValueError)"
| "dec_round (Infinity s) = Inl OverflowError"
| "dec_round d = Inl ValueError"

text \<open>\<^verbatim>\<open>str(a)\<close>, with the exponent in scientific notation where one is needed.\<close>

definition str_decimal :: "decimal \<Rightarrow> string" where
  "str_decimal a =
     (let sign = (if dec_sign a then ''-'' else [])
      in case a of
           Infinity s \<Rightarrow> sign @ ''Infinity''
         | NaN s p \<Rightarrow> sign @ ''NaN'' @ (if p = 0 then [] else str_nat p)
         | SNaN s p \<Rightarrow> sign @ ''sNaN'' @ (if p = 0 then [] else str_nat p)
         | Finite s c e \<Rightarrow>
             let digits = str_nat c;
                 leftdigits = e + int (length digits);
                 dotplace = (if e \<le> 0 \<and> leftdigits > - 6 then leftdigits else 1);
                 intpart =
                   (if dotplace \<le> 0 then ''0''
                    else if dotplace \<ge> int (length digits)
                      then digits @ replicate (nat (dotplace - int (length digits))) (CHR ''0'')
                    else take (nat dotplace) digits);
                 fracpart =
                   (if dotplace \<le> 0 then ''.'' @ replicate (nat (- dotplace)) (CHR ''0'') @ digits
                    else if dotplace \<ge> int (length digits) then []
                    else ''.'' @ drop (nat dotplace) digits);
                 ex =
                   (if leftdigits = dotplace then []
                    else ''E'' @ (if leftdigits - dotplace < 0 then ''-'' else ''+'') @
                         str_nat (nat \<bar>leftdigits - dotplace\<bar>))
             in sign @ intpart @ fracpart @ ex)"

section \<open>Dates\<close>

record date =
  year :: nat
  month :: nat
  day :: nat

definition is_leap :: "nat \<Rightarrow> bool" where
  "is_leap y = (y mod 4 = 0 \<and> (y mod 100 \<noteq> 0 \<or> y mod 400 = 0))"

definition days_in_month :: "nat \<Rightarrow> nat \<Rightarrow> nat" where
  "days_in_month y m =
     (if m = 2 then (if is_leap y then 29 else 28)
      else if m \<in> {4, 6, 9, 11} then 30 else 31)"

text \<open>
  \<^verbatim>\<open>datetime.strptime(s, '%d/%m/%y')\<close>. The format becomes the regular expression
  \<^verbatim>\<open>(3[0-1]|[1-2]\d|0[1-9]|[1-9]| [1-9])/(1[0-2]|0[1-9]|[1-9])/(\d\d)\<close>, matched from the
  start of the string with backtracking. Each field gives its alternatives in the order
  of the expression, as pairs of the value read and the rest of the string. A digit
  written out in the expression is a digit of ASCII; \<^verbatim>\<open>\d\<close> is a decimal digit of any
  script.
\<close>

definition digit_in :: "nat \<Rightarrow> nat \<Rightarrow> nat \<Rightarrow> bool" where
  "digit_in c lo hi = (48 + lo \<le> c \<and> c \<le> 48 + hi)"

definition any_digit :: "nat \<Rightarrow> bool" where
  "any_digit c = (unicode_decimal c \<noteq> None)"

definition any_digit_val :: "nat \<Rightarrow> nat" where
  "any_digit_val c = (case unicode_decimal c of None \<Rightarrow> 0 | Some v \<Rightarrow> v)"

definition match_d :: "nat list \<Rightarrow> (nat \<times> nat list) list" where
  "match_d s =
     (case s of
        c1 # c2 # r \<Rightarrow>
          (if c1 = code (CHR ''3'') \<and> digit_in c2 0 1 then [(30 + digit_val c2, r)] else []) @
          (if digit_in c1 1 2 \<and> any_digit c2 then [(10 * digit_val c1 + any_digit_val c2, r)] else []) @
          (if c1 = code (CHR ''0'') \<and> digit_in c2 1 9 then [(digit_val c2, r)] else []) @
          (if digit_in c1 1 9 then [(digit_val c1, c2 # r)] else []) @
          (if c1 = code (CHR '' '') \<and> digit_in c2 1 9 then [(digit_val c2, r)] else [])
      | [c1] \<Rightarrow> (if digit_in c1 1 9 then [(digit_val c1, [])] else [])
      | [] \<Rightarrow> [])"

definition match_m :: "nat list \<Rightarrow> (nat \<times> nat list) list" where
  "match_m s =
     (case s of
        c1 # c2 # r \<Rightarrow>
          (if c1 = code (CHR ''1'') \<and> digit_in c2 0 2 then [(10 + digit_val c2, r)] else []) @
          (if c1 = code (CHR ''0'') \<and> digit_in c2 1 9 then [(digit_val c2, r)] else []) @
          (if digit_in c1 1 9 then [(digit_val c1, c2 # r)] else [])
      | [c1] \<Rightarrow> (if digit_in c1 1 9 then [(digit_val c1, [])] else [])
      | [] \<Rightarrow> [])"

definition match_y :: "nat list \<Rightarrow> (nat \<times> nat list) list" where
  "match_y s =
     (case s of
        c1 # c2 # r \<Rightarrow>
          (if any_digit c1 \<and> any_digit c2 then [(10 * any_digit_val c1 + any_digit_val c2, r)] else [])
      | _ \<Rightarrow> [])"

definition match_slash :: "nat list \<Rightarrow> nat list list" where
  "match_slash s = (case s of c # r \<Rightarrow> (if c = code (CHR ''/'') then [r] else []) | [] \<Rightarrow> [])"

definition strptime_matches :: "nat list \<Rightarrow> (nat \<times> nat \<times> nat \<times> nat list) list" where
  "strptime_matches s =
     [(d, m, y, r5).
        (d, r1) \<leftarrow> match_d s, r2 \<leftarrow> match_slash r1,
        (m, r3) \<leftarrow> match_m r2, r4 \<leftarrow> match_slash r3,
        (y, r5) \<leftarrow> match_y r4]"

text \<open>
  \<open>None\<close> is \<^verbatim>\<open>ValueError\<close>: no match, unconverted data after the match, or a day the
  month does not have. A two-digit year up to 68 is in 2000, a later one in 1900.
\<close>

definition strptime_dmy :: "string \<Rightarrow> date option" where
  "strptime_dmy s =
     (case code_points s of
        None \<Rightarrow> None
      | Some u \<Rightarrow>
          (case strptime_matches u of
             [] \<Rightarrow> None
           | (d, m, y, rest) # _ \<Rightarrow>
               if rest \<noteq> [] then None
               else
                 let yr = (if y \<le> 68 then 2000 + y else 1900 + y)
                 in if 1 \<le> d \<and> d \<le> days_in_month yr m
                    then Some \<lparr>year = yr, month = m, day = d\<rparr>
                    else None))"

text \<open>
  \<open>py_strptime s format\<close> is \<^verbatim>\<open>datetime.strptime(s, format).date()\<close> for the one format
  that the code passes; no other format is read here.
\<close>

definition py_strptime :: "string \<Rightarrow> string \<Rightarrow> date option" where
  "py_strptime s format = (if format = ''%d/%m/%y'' then strptime_dmy s else None)"

definition zero_pad :: "nat \<Rightarrow> string \<Rightarrow> string" where
  "zero_pad w s = replicate (w - length s) (CHR ''0'') @ s"

text \<open>\<^verbatim>\<open>str(date)\<close>: the ISO form.\<close>

definition str_date :: "date \<Rightarrow> string" where
  "str_date d =
     zero_pad 4 (str_nat (year d)) @ ''-'' @ zero_pad 2 (str_nat (month d)) @ ''-'' @
     zero_pad 2 (str_nat (day d))"

section \<open>The stored data\<close>

text \<open>
  Modelled from the spec: the models \<^verbatim>\<open>ExchangeRate\<close>, \<^verbatim>\<open>Tag\<close> and \<^verbatim>\<open>Expense\<close> and the table
  \<^verbatim>\<open>CURRENCY\<close> of \<^verbatim>\<open>expenses.models\<close> and the groups of \<^verbatim>\<open>bot.models\<close> are not among the
  sources. The records have the fields of the data model of the specification, which are
  the fields the code of \<^verbatim>\<open>bot/utils.py\<close> reads and writes; the optional fields of an expense
  are \<open>None\<close> until they are set. A user is referred to by the unique user name, a group
  by its chat id. \<^verbatim>\<open>CURRENCY\<close> is a parameter of the functions that use it: a dictionary,
  here the list of its (code, symbol) items in iteration order.
\<close>

type_synonym user_ref = string
type_synonym group_ref = int

record exchange_rate =
  currency :: string
  rate :: decimal
  rate_date :: date

record tag =
  tag_name :: string
  tag_group :: group_ref

record expense =
  expense_user :: user_ref
  expense_group :: group_ref
  expense_description :: string
  expense_amount :: decimal
  expense_date :: date
  expense_original_currency :: "string option"
  expense_original_amount :: "decimal option"
  expense_tags :: "tag list"

record telegram_group =
  chat_id :: group_ref
  users :: "user_ref list"

text \<open>The tables, each in the order its queries return the rows.\<close>

record db =
  exchange_rates :: "exchange_rate list"
  tag_rows :: "tag list"
  expense_rows :: "expense list"

text \<open>
  \<^verbatim>\<open>ExchangeRate.objects.filter(currency=key).last()\<close>: the last of the rows of that
  currency, \<open>None\<close> where there is none.
\<close>

definition last_exchange_rate :: "db \<Rightarrow> string \<Rightarrow> exchange_rate option" where
  "last_exchange_rate d key =
     (case filter (\<lambda>r. currency r = key) (exchange_rates d) of
        [] \<Rightarrow> None
      | r # rs \<Rightarrow> Some (last (r # rs)))"

text \<open>
  Modelled from the spec: the model \<^verbatim>\<open>Tag\<close> is not among the sources. A tag is a name
  and a group, unique per (name, group), and \<^verbatim>\<open>get_or_create\<close> returns the stored tag of
  that name and group or stores a new one.
\<close>

definition get_or_create_tag :: "db \<Rightarrow> string \<Rightarrow> group_ref \<Rightarrow> tag \<times> db" where
  "get_or_create_tag d name grp =
     (case find (\<lambda>t. tag_name t = name \<and> tag_group t = grp) (tag_rows d) of
        Some t \<Rightarrow> (t, d)
      | None \<Rightarrow>
          (let t = \<lparr>tag_name = name, tag_group = grp\<rparr>
           in (t, d\<lparr>tag_rows := tag_rows d @ [t]\<rparr>)))"

section \<open>\<^verbatim>\<open>get_amount_and_currency\<close>\<close>

definition amount_text_head :: string where
  "amount_text_head =
     ''El primer valor que me pasas despu'' @ [CHR 0xC3, CHR 0xA9] @
     ''s del comando tiene que ser el valor de lo que pagaste. '' @ [CHR 0x0A, CHR 0x0A] @
     '' Tambi'' @ [CHR 0xC3, CHR 0xA9] @ ''n pod'' @ [CHR 0xC3, CHR 0xA9] @
     ''s especificar un tipo de cambio con el codigo y  monto, por ejemplo 40u para 40 dolares (o usd40). '' @
     [CHR 0x0A] @ '' Los c'' @ [CHR 0xC3, CHR 0xB3] @ ''digos posibles son:''"

text \<open>The two lines the message gets for one item of \<^verbatim>\<open>CURRENCY\<close>.\<close>

definition currency_lines :: "string \<times> string \<Rightarrow> string" where
  "currency_lines kv =
     (case kv of (k, v) \<Rightarrow>
        ([CHR 0x0A] @ '' - '' @ k @ '' ('' @ v @ '')'') @ ([CHR 0x0A] @ '' - '' @ v))"

definition amount_text :: "(string \<times> string) list \<Rightarrow> string \<Rightarrow> string" where
  "amount_text CURRENCY amount_without_currency =
     amount_text_head @ concat (map currency_lines CURRENCY) @
     ([CHR 0x0A, CHR 0x0A] @ '' El valor '' @ [CHR 0x22] @ amount_without_currency @ [CHR 0x22] @
      '' no es un n'' @ [CHR 0xC3, CHR 0xBA] @ ''mero v'' @ [CHR 0xC3, CHR 0xA1] @ ''lido.'')"

text \<open>The test of the loop over \<^verbatim>\<open>CURRENCY.items()\<close>, and the item the loop breaks at.\<close>

definition has_currency :: "string \<Rightarrow> string \<times> string \<Rightarrow> bool" where
  "has_currency raw_amount kv =
     (case kv of (key, val) \<Rightarrow>
        (startswith raw_amount key \<or> startswith raw_amount val) \<or>
        (endswith raw_amount key \<or> endswith raw_amount val))"

definition find_currency :: "(string \<times> string) list \<Rightarrow> string \<Rightarrow> (string \<times> string) option" where
  "find_currency CURRENCY raw_amount = find (has_currency raw_amount) CURRENCY"

definition amount_without_currency :: "(string \<times> string) list \<Rightarrow> string \<Rightarrow> string" where
  "amount_without_currency CURRENCY raw_amount =
     (case (case find_currency CURRENCY raw_amount of None \<Rightarrow> ([], []) | Some kv \<Rightarrow> kv) of
        (key, val) \<Rightarrow> py_replace (py_replace raw_amount val []) key [])"

definition get_amount_and_currency ::
  "(string \<Rightarrow> decimal option) \<Rightarrow> (string \<times> string) list \<Rightarrow> db \<Rightarrow> string
     \<Rightarrow> exn + (decimal \<times> exchange_rate option \<times> decimal)" where
  "get_amount_and_currency Decimal CURRENCY d raw_amount =
     (let exchange_rate =
            (case find_currency CURRENCY raw_amount of
               None \<Rightarrow> None
             | Some (key, val) \<Rightarrow> last_exchange_rate d key);
          without = amount_without_currency CURRENCY raw_amount
      in case Decimal (py_replace without '','' ''.'') of
           None \<Rightarrow> Inl (ParameterError (amount_text CURRENCY without))
         | Some original_amount \<Rightarrow>
             (case exchange_rate of
                Some r \<Rightarrow>
                  (case dec_mul original_amount (rate r) of
                     Inl e \<Rightarrow> Inl e
                   | Inr amount \<Rightarrow> Inr (amount, exchange_rate, original_amount))
              | None \<Rightarrow> Inr (original_amount, exchange_rate, original_amount)))"

section \<open>\<^verbatim>\<open>decode_expense_params\<close>\<close>

definition dd_help :: string where
  "dd_help =
     ''Colocar la fecha en la que se gener'' @ [CHR 0xC3, CHR 0xB3] @ '' el gasto despu'' @
     [CHR 0xC3, CHR 0xA9] @ ''s del argumento '' @ [CHR 0x22] @ ''dd'' @ [CHR 0x22]"

definition tt_help :: string where
  "tt_help =
     ''Luego de '' @ [CHR 0x22] @ ''tt'' @ [CHR 0x22] @
     '' colocar el nombre de la/las etiqueta/s para el gasto que est'' @ [CHR 0xC3, CHR 0xA1] @
     ''s cargando. Pod'' @ [CHR 0xC3, CHR 0xA9] @ ''s ingresar m'' @ [CHR 0xC3, CHR 0xA1] @
     ''s de una etiqueta separando los nombres por comas (sin espacio).''"

definition special_arguments :: "(string \<times> string) list" where
  "special_arguments = [(''dd'', dd_help), (''tt'', tt_help)]"

definition no_params_text :: string where
  "no_params_text =
     ''Necesito que me digas cuanto pagaste y una descripci'' @ [CHR 0xC3, CHR 0xB3] @
     ''n del gasto.''"

definition no_description_text :: string where
  "no_description_text =
     ''Necesito que agregues en el comando una descripci'' @ [CHR 0xC3, CHR 0xB3] @
     ''n del gasto''"

definition date_format_text :: string where
  "date_format_text =
     ''Luego del par'' @ [CHR 0xC3, CHR 0xA1] @ ''metro '' @ [CHR 0x22] @ ''dd'' @ [CHR 0x22] @
     '' necesito que ingreses la fecha del gasto que est'' @ [CHR 0xC3, CHR 0xA1] @
     ''s cargando con formato '' @ [CHR 0x22] @ ''dd/mm/yy'' @ [CHR 0x22] @
     '' (Por ejemplo 28/01/99).''"

text \<open>
  One turn of the loop over the special arguments: \<^verbatim>\<open>index\<close> finds the first occurrence of
  the keyword, the first \<^verbatim>\<open>pop\<close> takes the keyword out and the second takes out what stands
  at the same position then. No occurrence (\<^verbatim>\<open>ValueError\<close>) gives the value \<open>None\<close>; a
  \<^verbatim>\<open>pop\<close> past the end (\<^verbatim>\<open>IndexError\<close>) raises \<open>ParameterError\<close> with the help text.
\<close>

definition pop_argument :: "string \<Rightarrow> string \<Rightarrow> string list \<Rightarrow> exn + (string option \<times> string list)" where
  "pop_argument argument text params =
     (case py_index params argument of
        None \<Rightarrow> Inr (None, params)
      | Some argument_position \<Rightarrow>
          (case py_pop params argument_position of
             None \<Rightarrow> Inl (ParameterError text)
           | Some (keyword, params') \<Rightarrow>
               (case py_pop params' argument_position of
                  None \<Rightarrow> Inl (ParameterError text)
                | Some (v, params'') \<Rightarrow> Inr (Some v, params''))))"

text \<open>
  The loop: the entries \<^verbatim>\<open>data[argument]\<close> it writes, in the order written, and the
  tokens left.
\<close>

fun look_for_special_arguments ::
  "(string \<times> string) list \<Rightarrow> string list \<Rightarrow> exn + ((string \<times> string option) list \<times> string list)" where
  "look_for_special_arguments [] params = Inr ([], params)"
| "look_for_special_arguments ((argument, text) # rest) params =
     (case pop_argument argument text params of
        Inl e \<Rightarrow> Inl e
      | Inr (v, params') \<Rightarrow>
          (case look_for_special_arguments rest params' of
             Inl e \<Rightarrow> Inl e
           | Inr (data, params'') \<Rightarrow> Inr ((argument, v) # data, params'')))"

text \<open>
  \<^verbatim>\<open>data[k]\<close> for the keys of the special arguments; the loop has written every one of them.
\<close>

definition data_get :: "(string \<times> string option) list \<Rightarrow> string \<Rightarrow> string option" where
  "data_get data k = (case map_of data k of None \<Rightarrow> None | Some v \<Rightarrow> v)"

text \<open>
  The date: \<^verbatim>\<open>if data['dd']\<close> is false for \<open>None\<close> and for the empty string.
\<close>

definition handle_date :: "(string \<Rightarrow> string \<Rightarrow> date option) \<Rightarrow> date \<Rightarrow> string option \<Rightarrow> exn + date" where
  "handle_date strptime today dd =
     (case dd of
        None \<Rightarrow> Inr today
      | Some s \<Rightarrow>
          if s = [] then Inr today
          else (case strptime s ''%d/%m/%y'' of
                  None \<Rightarrow> Inl (ParameterError date_format_text)
                | Some d \<Rightarrow> Inr d))"

text \<open>
  The tags: \<^verbatim>\<open>data['tt']\<close> stays \<open>None\<close> or the empty string when it is false, and becomes
  the list of tags otherwise. The loop runs once for each name of the split, and every
  turn looks up or creates the tag named by the whole of \<^verbatim>\<open>data['tt']\<close>.
\<close>

datatype tt_value = TT_None | TT_Str string | TT_Tags "tag list"

fun tags_loop :: "db \<Rightarrow> string \<Rightarrow> group_ref \<Rightarrow> string list \<Rightarrow> tag list \<Rightarrow> tag list \<times> db" where
  "tags_loop d tt grp [] tags_list = (tags_list, d)"
| "tags_loop d tt grp (t # ts) tags_list =
     (case get_or_create_tag d tt grp of
        (tag_instnce, d') \<Rightarrow> tags_loop d' tt grp ts (tags_list @ [tag_instnce]))"

definition handle_tags :: "db \<Rightarrow> string option \<Rightarrow> group_ref \<Rightarrow> tt_value \<times> db" where
  "handle_tags d tt grp =
     (case tt of
        None \<Rightarrow> (TT_None, d)
      | Some s \<Rightarrow>
          if s = [] then (TT_Str s, d)
          else (case tags_loop d s grp (py_split s (CHR '','')) [] of
                  (tags_list, d') \<Rightarrow> (TT_Tags tags_list, d')))"

record parsed =
  data_amount :: decimal
  data_exchange_rate :: "exchange_rate option"
  data_original_amount :: decimal
  data_dd :: date
  data_tt :: tt_value
  data_description :: string

definition decode_expense_params ::
  "(string \<Rightarrow> decimal option) \<Rightarrow> (string \<Rightarrow> string \<Rightarrow> date option) \<Rightarrow> date \<Rightarrow> (string \<times> string) list \<Rightarrow> db
     \<Rightarrow> string list \<Rightarrow> group_ref \<Rightarrow> exn + (parsed \<times> db)" where
  "decode_expense_params Decimal strptime today CURRENCY d params grp =
     (case params of
        [] \<Rightarrow> Inl (ParameterError no_params_text)
      | amount_received # params1 \<Rightarrow>
          (case get_amount_and_currency Decimal CURRENCY d amount_received of
             Inl e \<Rightarrow> Inl e
           | Inr (amount, exchange_rate, original_amount) \<Rightarrow>
               (case look_for_special_arguments special_arguments params1 of
                  Inl e \<Rightarrow> Inl e
                | Inr (data, params2) \<Rightarrow>
                    if params2 = [] then Inl (ParameterError no_description_text)
                    else
                      (case handle_date strptime today (data_get data ''dd'') of
                         Inl e \<Rightarrow> Inl e
                       | Inr dd \<Rightarrow>
                           (case handle_tags d (data_get data ''tt'') grp of
                              (tt, d') \<Rightarrow>
                                Inr (\<lparr>data_amount = amount,
                                      data_exchange_rate = exchange_rate,
                                      data_original_amount = original_amount,
                                      data_dd = dd,
                                      data_tt = tt,
                                      data_description = py_join '' '' params2\<rparr>, d'))))))"

section \<open>\<^verbatim>\<open>new_expense\<close>\<close>

text \<open>
  \<^verbatim>\<open>CURRENCY[k]\<close>, and \<^verbatim>\<open>expense.tags.add(tag)\<close> on the set of tags of an expense.
  \<^verbatim>\<open>Expense.__str__\<close> is not among the sources and is the parameter \<open>str_expense\<close>;
  \<^verbatim>\<open>expense.save()\<close> adds the expense to the table.
\<close>

definition currency_name :: "(string \<times> string) list \<Rightarrow> string \<Rightarrow> exn + string" where
  "currency_name CURRENCY k = (case map_of CURRENCY k of None \<Rightarrow> Inl KeyError | Some v \<Rightarrow> Inr v)"

definition tags_add :: "tag list \<Rightarrow> tag \<Rightarrow> tag list" where
  "tags_add ts t = (if t \<in> set ts then ts else ts @ [t])"

definition conversion_text :: "string \<Rightarrow> exchange_rate \<Rightarrow> string" where
  "conversion_text name r =
     ''Tu gasto se convirti'' @ [CHR 0xC3, CHR 0xB3] @ '' a '' @ name @
     '' usando un tipo de cambio = $'' @ str_decimal (rate r) @ '' (cargado el '' @
     str_date (rate_date r) @ '').'' @ [CHR 0x0A, CHR 0x0A]"

definition saved_text :: "string \<Rightarrow> string" where
  "saved_text e = ''Se guard'' @ [CHR 0xC3, CHR 0xB3] @ '' tu gasto '' @ e"

text \<open>
  The expense object as it stands when \<^verbatim>\<open>new_expense\<close> returns: the fields of the
  constructor, the two fields of the original currency where an exchange rate came with
  the data, and the tags added after \<^verbatim>\<open>save\<close>.
\<close>

definition build_expense :: "parsed \<Rightarrow> user_ref \<Rightarrow> group_ref \<Rightarrow> expense" where
  "build_expense data usr grp =
     (let expense = \<lparr>expense_user = usr, expense_group = grp,
                      expense_description = data_description data,
                      expense_amount = data_amount data,
                      expense_date = data_dd data,
                      expense_original_currency = None,
                      expense_original_amount = None,
                      expense_tags = []\<rparr>;
          expense = (case data_exchange_rate data of
                       None \<Rightarrow> expense
                     | Some exchange_rate \<Rightarrow>
                         expense\<lparr>expense_original_currency := Some (currency exchange_rate),
                                 expense_original_amount := Some (data_original_amount data)\<rparr>)
      in case data_tt data of
           TT_Tags ts \<Rightarrow> expense\<lparr>expense_tags := foldl tags_add [] ts\<rparr>
         | _ \<Rightarrow> expense)"

definition new_expense ::
  "(string \<Rightarrow> decimal option) \<Rightarrow> (string \<Rightarrow> string \<Rightarrow> date option) \<Rightarrow> (expense \<Rightarrow> string) \<Rightarrow> date
     \<Rightarrow> (string \<times> string) list \<Rightarrow> db \<Rightarrow> string list \<Rightarrow> user_ref \<Rightarrow> group_ref
     \<Rightarrow> exn + (string \<times> db)" where
  "new_expense Decimal strptime str_expense today CURRENCY d params usr grp =
     (case decode_expense_params Decimal strptime today CURRENCY d params grp of
        Inl (ParameterError e) \<Rightarrow> Inr (e, d)
      | Inl e \<Rightarrow> Inl e
      | Inr (data, d') \<Rightarrow>
          let expense = build_expense data usr grp;
              d'' = d'\<lparr>expense_rows := expense_rows d' @ [expense]\<rparr>
          in case data_exchange_rate data of
               None \<Rightarrow> Inr (saved_text (str_expense expense), d'')
             | Some exchange_rate \<Rightarrow>
                 (case currency_name CURRENCY (currency exchange_rate) of
                    Inl e \<Rightarrow> Inl e
                  | Inr name \<Rightarrow>
                      Inr (conversion_text name exchange_rate @ saved_text (str_expense expense), d'')))"

section \<open>\<^verbatim>\<open>show_expenses\<close>\<close>

text \<open>
  \<^verbatim>\<open>aggregate(Sum('amount'))\<close> is computed by the database: \<open>None\<close> without rows, else the
  exact sum of the stored numbers. The database stores finite numbers only; a row with
  another value makes the sum of this model a NaN.
\<close>

fun signed_coeff :: "decimal \<Rightarrow> int" where
  "signed_coeff (Finite s c e) = (if s then - int c else int c)"
| "signed_coeff d = 0"

definition exact_add :: "decimal \<Rightarrow> decimal \<Rightarrow> decimal" where
  "exact_add a b =
     (if is_special a \<or> is_special b then NaN False 0
      else
        let m = min (dec_exp a) (dec_exp b);
            n = signed_coeff a * 10 ^ nat (dec_exp a - m) + signed_coeff b * 10 ^ nat (dec_exp b - m)
        in Finite (n < 0) (nat \<bar>n\<bar>) m)"

definition db_sum :: "decimal list \<Rightarrow> decimal option" where
  "db_sum xs = (case xs of [] \<Rightarrow> None | x # ys \<Rightarrow> Some (foldl exact_add x ys))"

text \<open>
  A user's amount is \<^verbatim>\<open>amount__sum or 0\<close>: the integer 0 when there is no sum or the sum is
  zero, the sum otherwise.
\<close>

datatype number = Num_Int int | Num_Dec decimal

definition sum_or_0 :: "decimal option \<Rightarrow> number" where
  "sum_or_0 s = (case s of None \<Rightarrow> Num_Int 0 | Some a \<Rightarrow> if dec_bool a then Num_Dec a else Num_Int 0)"

fun to_decimal :: "number \<Rightarrow> decimal" where
  "to_decimal (Num_Int i) = Finite (i < 0) (nat \<bar>i\<bar>) 0"
| "to_decimal (Num_Dec a) = a"

fun round2 :: "number \<Rightarrow> exn + number" where
  "round2 (Num_Int i) = Inr (Num_Int i)"
| "round2 (Num_Dec a) = (case dec_quantize a (- 2) of Inl e \<Rightarrow> Inl e | Inr r \<Rightarrow> Inr (Num_Dec r))"

fun str_number :: "number \<Rightarrow> string" where
  "str_number (Num_Int i) = str_int i"
| "str_number (Num_Dec a) = str_decimal a"

text \<open>\<^verbatim>\<open>user_expenses[k] = v\<close> on a dictionary kept as the list of its items.\<close>

fun dict_set :: "('k \<times> 'v) list \<Rightarrow> 'k \<Rightarrow> 'v \<Rightarrow> ('k \<times> 'v) list" where
  "dict_set [] k v = [(k, v)]"
| "dict_set ((k', v') # kvs) k v = (if k' = k then (k, v) # kvs else (k', v') # dict_set kvs k v)"

text \<open>The loop over the users of the group.\<close>

fun user_amounts ::
  "expense list \<Rightarrow> user_ref list \<Rightarrow> (string \<times> number) list \<Rightarrow> exn + (string \<times> number) list" where
  "user_amounts group_expenses_qs [] user_expenses = Inr user_expenses"
| "user_amounts group_expenses_qs (usr # usrs) user_expenses =
     (let user_expense_qs = filter (\<lambda>e. expense_user e = usr) group_expenses_qs;
          user_amount = sum_or_0 (db_sum (map expense_amount user_expense_qs))
      in case round2 user_amount of
           Inl e \<Rightarrow> Inl e
         | Inr user_amount' \<Rightarrow>
             user_amounts group_expenses_qs usrs (dict_set user_expenses usr user_amount'))"

text \<open>\<^verbatim>\<open>round(total / total_expenses * 100)\<close>\<close>

definition percentage :: "number \<Rightarrow> decimal \<Rightarrow> exn + int" where
  "percentage user_total total_expenses =
     (case dec_div (to_decimal user_total) total_expenses of
        Inl e \<Rightarrow> Inl e
      | Inr q \<Rightarrow>
          (case dec_mul q (Finite False 100 0) of
             Inl e \<Rightarrow> Inl e
           | Inr p \<Rightarrow> dec_round p))"

text \<open>The loop over the items of \<^verbatim>\<open>user_expenses\<close>, adding one line to the text each.\<close>

fun user_lines :: "decimal \<Rightarrow> (string \<times> number) list \<Rightarrow> string \<Rightarrow> exn + string" where
  "user_lines total_expenses [] text = Inr text"
| "user_lines total_expenses ((usr, user_total) # items) text =
     (case percentage user_total total_expenses of
        Inl e \<Rightarrow> Inl e
      | Inr p \<Rightarrow>
          user_lines total_expenses items
            (text @ [CHR 0x0A, CHR 0x0A] @ usr @ '': $'' @ str_number user_total @ '' ('' @ str_int p @ ''%)''))"

definition no_expenses_text :: string where
  "no_expenses_text = ''Todav'' @ [CHR 0xC3, CHR 0xAD] @ ''a no hay gastos cargados en este grupo''"

definition show_expenses :: "db \<Rightarrow> telegram_group \<Rightarrow> exn + string" where
  "show_expenses d grp =
     (let group_expenses_qs = filter (\<lambda>e. expense_group e = chat_id grp) (expense_rows d)
      in if group_expenses_qs = [] then Inr no_expenses_text
         else
           let first_expense = last group_expenses_qs
           in case db_sum (map expense_amount group_expenses_qs) of
                None \<Rightarrow> Inl TypeError
              | Some amount_sum \<Rightarrow>
                  (case dec_quantize amount_sum (- 2) of
                     Inl e \<Rightarrow> Inl e
                   | Inr total_expenses \<Rightarrow>
                       (case (if length (users grp) > 1
                              then user_amounts group_expenses_qs (users grp) []
                              else Inr []) of
                          Inl e \<Rightarrow> Inl e
                        | Inr user_expenses \<Rightarrow>
                            user_lines total_expenses user_expenses
                              (''Gastos desde el '' @ str_date (expense_date first_expense) @
                               '' hasta ahora'' @ [CHR 0x0A, CHR 0x0A] @ ''Total: $'' @
                               str_decimal total_expenses @ [CHR 0x0A]))))"

section \<open>The modifiers in the words of the specification\<close>

text \<open>
  For a keyword and a token sequence: the value of the modifier is the token that follows
  the first occurrence of the keyword; the sequence without the modifier has that
  occurrence and the token after it taken out; the value is missing when the first
  occurrence of the keyword is the last token.
\<close>

definition modifier_value :: "string \<Rightarrow> string list \<Rightarrow> string option" where
  "modifier_value kw ps =
     (case py_index ps kw of
        None \<Rightarrow> None
      | Some i \<Rightarrow> if Suc i < length ps then Some (ps ! Suc i) else None)"

definition without_modifier :: "string \<Rightarrow> string list \<Rightarrow> string list" where
  "without_modifier kw ps =
     (case py_index ps kw of
        None \<Rightarrow> ps
      | Some i \<Rightarrow> take i ps @ drop (i + 2) ps)"

definition value_missing :: "string \<Rightarrow> string list \<Rightarrow> bool" where
  "value_missing kw ps =
     (case py_index ps kw of
        None \<Rightarrow> False
      | Some i \<Rightarrow> Suc i = length ps)"

text \<open>
  The conversion of the amount raises an exception of the decimal module: the product of
  the original amount and the rate is not defined or out of range.
\<close>

definition conversion_raises ::
  "(string \<Rightarrow> decimal option) \<Rightarrow> (string \<times> string) list \<Rightarrow> db \<Rightarrow> string list \<Rightarrow> bool" where
  "conversion_raises Decimal CURRENCY d params =
     (case params of
        [] \<Rightarrow> False
      | amount_received # params1 \<Rightarrow>
          (case get_amount_and_currency Decimal CURRENCY d amount_received of
             Inl (ParameterError text) \<Rightarrow> False
           | Inl e \<Rightarrow> True
           | Inr r \<Rightarrow> False))"

section \<open>Example data\<close>

definition example_today :: date where
  "example_today = \<lparr>year = 2026, month = 11, day = 3\<rparr>"

definition example_currency :: "(string \<times> string) list" where
  "example_currency = [(''usd'', ''u''), (''eur'', ''e'')]"


definition example_rate_30 :: exchange_rate where
  "example_rate_30 =
     \<lparr>currency = ''usd'', rate = Finite False 30 (- 1), rate_date = \<lparr>year = 2020, month = 1, day = 1\<rparr>\<rparr>"

definition example_rate_35 :: exchange_rate where
  "example_rate_35 =
     \<lparr>currency = ''usd'', rate = Finite False 35 (- 1), rate_date = \<lparr>year = 2020, month = 1, day = 2\<rparr>\<rparr>"

text \<open>The tables before anything is stored.\<close>

definition example_empty :: db where
  "example_empty = \<lparr>exchange_rates = [], tag_rows = [], expense_rows = []\<rparr>"

definition example_rates :: db where
  "example_rates = \<lparr>exchange_rates = [example_rate_30, example_rate_35], tag_rows = [], expense_rows = []\<rparr>"

text \<open>
  A group of two users with two expenses, 10.00 and -10.00, that sum to zero.
\<close>

definition example_group :: telegram_group where
  "example_group = \<lparr>chat_id = 7, users = [''ana'', ''bob'']\<rparr>"

definition example_expense :: "user_ref \<Rightarrow> decimal \<Rightarrow> expense" where
  "example_expense usr a =
     \<lparr>expense_user = usr, expense_group = 7, expense_description = ''x'',
       expense_amount = a, expense_date = example_today,
       expense_original_currency = None, expense_original_amount = None,
       expense_tags = []\<rparr>"

definition example_zero_sum :: db where
  "example_zero_sum =
     \<lparr>exchange_rates = [], tag_rows = [],
       expense_rows = [example_expense ''ana'' (Finite False 1000 (- 2)),
                       example_expense ''bob'' (Finite True 1000 (- 2))]\<rparr>"

section \<open>Evaluation\<close>

lemmas decimal_eval =
  py_Decimal_def code_points_def numeric_as_ascii_def strip_space_def unicode_space_def
  ascii_of_def code_def split_sign_def decimal_of_body_def ascii_digit_def parse_exponent_def
  int_of_digits_def digit_val_def lower_def startswith_def MAX_EMAX_def MIN_ETINY_def
  ndigits.simps

lemmas amount_eval =
  get_amount_and_currency_def amount_without_currency_def find_currency_def has_currency_def
  startswith_def endswith_def py_replace_def replace_scan.simps last_exchange_rate_def

lemmas context_eval = ndigits.simps prec_def Etop_def Etiny_def Emax_def Emin_def

lemma Decimal_10: "py_Decimal ''10'' = Some (Finite False 10 0)"
  by (simp add: decimal_eval)

lemma dec_mul_10_35: "dec_mul (Finite False 10 0) (Finite False 35 (- 1)) = Inr (Finite False 350 (- 1))"
  by (simp add: dec_mul_def context_eval)

section \<open>The exchange rate looked up\<close>

lemma last_exchange_rate_currency:
  "last_exchange_rate d key = Some r \<Longrightarrow> currency r = key"
proof -
  assume a: "last_exchange_rate d key = Some r"
  let ?rs = "filter (\<lambda>r. currency r = key) (exchange_rates d)"
  from a have ne: "?rs \<noteq> []" and r: "r = last ?rs"
    by (auto simp: last_exchange_rate_def split: list.splits)
  from ne have "last ?rs \<in> set ?rs" by (rule last_in_set)
  with r show ?thesis by simp
qed

section \<open>Replacing what does not occur\<close>

lemma replace_scan_absent: "c \<notin> set s \<Longrightarrow> replace_scan [c] new s = s"
proof (induction s)
  case Nil
  show ?case by (simp add: replace_scan.simps)
next
  case (Cons x xs)
  then have "replace_scan [c] new xs = xs" and "x \<noteq> c" by auto
  then show ?case by (subst replace_scan.simps) (simp add: startswith_def)
qed

lemma py_replace_absent: "c \<notin> set s \<Longrightarrow> py_replace s [c] new = s"
  by (simp add: py_replace_def replace_scan_absent)

lemma py_replace_empty: "py_replace s [] [] = s"
  by (induction s) (simp_all add: py_replace_def)

text \<open>Deleting a single character everywhere leaves the other characters.\<close>

lemma replace_scan_char: "replace_scan [c] [] s = filter (\<lambda>x. x \<noteq> c) s"
proof (induction s)
  case Nil
  show ?case by (simp add: replace_scan.simps)
next
  case (Cons x xs)
  then show ?case by (subst replace_scan.simps) (simp add: startswith_def)
qed

lemma py_replace_char: "py_replace s [c] [] = filter (\<lambda>x. x \<noteq> c) s"
  by (simp add: py_replace_def replace_scan_char)

section \<open>No decimal literal has a comma\<close>

lemma utf8_keeps_ascii:
  "utf8 pending acc lo s = Some u \<Longrightarrow> c \<in> set s \<Longrightarrow> of_char c < (0x80::nat) \<Longrightarrow>
   of_char c \<in> set u"
proof (induction s arbitrary: pending acc lo u)
  case Nil
  then show ?case by simp
next
  case (Cons x s)
  show ?case
  proof (cases "x = c")
    case True
    with Cons.prems(1,3) show ?thesis
      by (auto simp: Let_def split: if_splits)
  next
    case False
    with Cons.prems(2) have c: "c \<in> set s" by simp
    from Cons.prems(1) c Cons.prems(3) Cons.IH show ?thesis
      by (auto simp: Let_def split: if_splits)
  qed
qed

lemma comma_code: "(of_char (CHR '','') :: nat) = 44"
  by simp

lemma code_points_comma:
  assumes "code_points s = Some u" and "CHR '','' \<in> set s"
  shows "44 \<in> set u"
proof -
  have "(of_char (CHR '','') :: nat) < 0x80" by simp
  with assms have "(of_char (CHR '','') :: nat) \<in> set u"
    unfolding code_points_def by (rule utf8_keeps_ascii)
  then show ?thesis by simp
qed

lemma in_set_dropWhile: "c \<in> set s \<Longrightarrow> \<not> P c \<Longrightarrow> c \<in> set (dropWhile P s)"
  by (induction s) auto

lemma comma_not_space: "\<not> unicode_space 44"
  by (simp add: unicode_space_def)

lemma comma_not_digit: "\<not> ascii_digit 44"
  by (simp add: ascii_digit_def)

lemma lower_comma: "lower 44 = 44"
  by (simp add: lower_def)

lemma in_set_strip_space: "c \<in> set s \<Longrightarrow> \<not> unicode_space c \<Longrightarrow> c \<in> set (strip_space s)"
proof -
  assume c: "c \<in> set s" and n: "\<not> unicode_space c"
  from c n have "c \<in> set (dropWhile unicode_space s)" by (rule in_set_dropWhile)
  then have "c \<in> set (rev (dropWhile unicode_space s))" by simp
  then have "c \<in> set (dropWhile unicode_space (rev (dropWhile unicode_space s)))"
    using n by (rule in_set_dropWhile)
  then show ?thesis by (simp add: strip_space_def)
qed

lemma those_keeps:
  "those (map f xs) = Some ys \<Longrightarrow> x \<in> set xs \<Longrightarrow> f x = Some x \<Longrightarrow> x \<in> set ys"
proof (induction xs arbitrary: ys)
  case Nil
  then show ?case by simp
next
  case (Cons a xs)
  from Cons.prems(1) obtain b bs where b: "f a = Some b" and bs: "those (map f xs) = Some bs"
    and ys: "ys = b # bs"
    by (auto split: option.splits)
  show ?case
  proof (cases "x = a")
    case True
    with b Cons.prems(3) ys show ?thesis by simp
  next
    case False
    with Cons.prems(2) have "x \<in> set xs" by simp
    then have "x \<in> set bs" using Cons.IH [OF bs _ Cons.prems(3)] by simp
    with ys show ?thesis by simp
  qed
qed

lemma numeric_as_ascii_comma:
  assumes "numeric_as_ascii u = Some s" and "44 \<in> set u"
  shows "44 \<in> set s"
proof -
  have "44 \<in> set (strip_space u)" using assms(2) comma_not_space by (rule in_set_strip_space)
  then have f: "44 \<in> set (filter (\<lambda>c. c \<noteq> code (CHR ''_'')) (strip_space u))"
    by (simp add: code_def)
  have a: "ascii_of 44 = Some 44" by (simp add: ascii_of_def)
  from assms(1) f a show ?thesis unfolding numeric_as_ascii_def by (rule those_keeps)
qed

lemma split_sign_keeps:
  "split_sign s = (sg, body) \<Longrightarrow> 44 \<in> set s \<Longrightarrow> 44 \<in> set body"
  by (auto simp: split_sign_def code_def split: list.splits if_splits)

lemma parse_exponent_comma:
  assumes "44 \<in> set s"
  shows "parse_exponent s = None"
proof (cases s)
  case Nil
  with assms show ?thesis by simp
next
  case (Cons c r)
  show ?thesis
  proof (cases "lower c = code (CHR ''e'')")
    case False
    with Cons show ?thesis by (simp add: parse_exponent_def)
  next
    case True
    then have "c \<noteq> 44" using lower_comma by (auto simp: code_def)
    with assms Cons have r: "44 \<in> set r" by simp
    obtain neg ds where sp: "split_sign r = (neg, ds)" by (cases "split_sign r")
    from split_sign_keeps [OF sp r] have "44 \<in> set ds" .
    then have "\<not> list_all ascii_digit ds"
      using comma_not_digit by (auto simp: list_all_iff)
    with Cons True sp show ?thesis by (simp add: parse_exponent_def)
  qed
qed

lemma in_dropWhile_digit: "44 \<in> set s \<Longrightarrow> 44 \<in> set (dropWhile ascii_digit s)"
  by (rule in_set_dropWhile) (simp_all add: comma_not_digit)

lemma word_comma:
  assumes "44 \<in> set body" and "44 \<notin> set w"
  shows "\<not> (startswith (map lower body) w \<and> list_all ascii_digit (drop (length w) body))"
proof
  assume a: "startswith (map lower body) w \<and> list_all ascii_digit (drop (length w) body)"
  then have t: "map lower (take (length w) body) = w"
    by (simp add: startswith_def take_map)
  have "44 \<in> set (take (length w) body) \<or> 44 \<in> set (drop (length w) body)"
    using assms(1) by (metis Un_iff append_take_drop_id set_append)
  then show False
  proof
    assume "44 \<in> set (take (length w) body)"
    then have "lower 44 \<in> set (map lower (take (length w) body))" by (metis image_eqI set_map)
    with t lower_comma assms(2) show False by simp
  next
    assume "44 \<in> set (drop (length w) body)"
    with a comma_not_digit show False by (auto simp: list_all_iff)
  qed
qed

lemma decimal_of_body_comma:
  assumes "44 \<in> set body"
  shows "decimal_of_body sg body = None"
proof -
  let ?r1 = "dropWhile ascii_digit body"
  let ?r2 = "(case ?r1 of [] \<Rightarrow> []
              | c # r \<Rightarrow> if c = code (CHR ''.'') then dropWhile ascii_digit r else ?r1)"
  have r1: "44 \<in> set ?r1" using assms by (rule in_dropWhile_digit)
  have r2: "44 \<in> set ?r2"
  proof (cases ?r1)
    case Nil
    with r1 show ?thesis by simp
  next
    case (Cons c r)
    show ?thesis
    proof (cases "c = code (CHR ''.'')")
      case True
      then have "c \<noteq> 44" by (simp add: code_def)
      with r1 Cons have "44 \<in> set r" by simp
      then have "44 \<in> set (dropWhile ascii_digit r)" by (rule in_dropWhile_digit)
      with Cons True show ?thesis by simp
    next
      case False
      with r1 Cons show ?thesis by simp
    qed
  qed
  have pe: "parse_exponent ?r2 = None" using r2 by (rule parse_exponent_comma)
  have low: "44 \<in> set (map lower body)"
    using assms lower_comma by (metis image_eqI set_map)
  have inf: "map lower body \<noteq> map code ''inf''" "map lower body \<noteq> map code ''infinity''"
    using low by (auto simp: code_def)
  have nan: "\<not> (startswith (map lower body) (map code ''nan'') \<and> list_all ascii_digit (drop 3 body))"
  proof -
    have l: "length (map code ''nan'') = 3" by simp
    have n: "44 \<notin> set (map code ''nan'')" by (simp add: code_def)
    from word_comma [OF assms n] show ?thesis unfolding l .
  qed
  have snan: "\<not> (startswith (map lower body) (map code ''snan'') \<and> list_all ascii_digit (drop 4 body))"
  proof -
    have l: "length (map code ''snan'') = 4" by simp
    have n: "44 \<notin> set (map code ''snan'')" by (simp add: code_def)
    from word_comma [OF assms n] show ?thesis unfolding l .
  qed
  show ?thesis
    unfolding decimal_of_body_def Let_def using pe inf nan snan by auto
qed

lemma py_Decimal_no_comma:
  assumes "py_Decimal s = Some a"
  shows "CHR '','' \<notin> set s"
proof
  assume c: "CHR '','' \<in> set s"
  from assms obtain u t where u: "code_points s = Some u" and t: "numeric_as_ascii u = Some t"
    by (auto simp: py_Decimal_def split: option.splits)
  from u c have "44 \<in> set u" by (rule code_points_comma)
  with t have ct: "44 \<in> set t" by (rule numeric_as_ascii_comma)
  obtain sg body where sp: "split_sign t = (sg, body)" by (cases "split_sign t")
  from sp ct have "44 \<in> set body" by (rule split_sign_keeps)
  then have "decimal_of_body sg body = None" by (rule decimal_of_body_comma)
  with u t sp assms show False by (simp add: py_Decimal_def)
qed

section \<open>The first occurrence is replaced\<close>

lemma contains_iff: "contains s p \<longleftrightarrow> (\<exists>i\<le>length s. startswith (drop i s) p)"
  by (auto simp: contains_def list_ex_iff less_Suc_eq_le simp del: upt_Suc)

lemma contains_append: "contains (a @ p @ b) p"
  unfolding contains_iff by (rule exI [of _ "length a"]) (simp add: startswith_def)

lemma replace_scan_first:
  assumes "old \<noteq> []"
  shows "\<not> contains (a @ butlast old) old \<Longrightarrow>
         replace_scan old new (a @ old @ b) = a @ new @ replace_scan old new b"
proof (induction a)
  case Nil
  from assms show ?case
    by (subst replace_scan.simps) (simp add: startswith_def)
next
  case (Cons x a)
  have len: "length old \<le> length ((x # a) @ butlast old)" by simp
  have no0: "\<not> startswith ((x # a) @ butlast old) old"
    using Cons.prems unfolding contains_iff by (metis drop0 le0)
  have eq: "(x # a) @ old @ b = ((x # a) @ butlast old) @ (last old # b)"
    using assms by simp
  have "take (length old) ((x # a) @ old @ b) = take (length old) ((x # a) @ butlast old)"
    unfolding eq using len by (simp del: append.simps append_assoc)
  with no0 have ns: "\<not> startswith ((x # a) @ old @ b) old"
    by (simp add: startswith_def)
  have "\<not> contains (a @ butlast old) old"
  proof
    assume "contains (a @ butlast old) old"
    then obtain i where i: "i \<le> length (a @ butlast old)" "startswith (drop i (a @ butlast old)) old"
      unfolding contains_iff by blast
    then have "Suc i \<le> length ((x # a) @ butlast old) \<and> startswith (drop (Suc i) ((x # a) @ butlast old)) old"
      by simp
    with Cons.prems show False unfolding contains_iff by blast
  qed
  then have ih: "replace_scan old new (a @ old @ b) = a @ new @ replace_scan old new b"
    by (rule Cons.IH)
  show ?case
    using assms ns ih by (subst replace_scan.simps) simp
qed

lemma py_replace_first:
  "old \<noteq> [] \<Longrightarrow> \<not> contains (a @ butlast old) old \<Longrightarrow>
   py_replace (a @ old @ b) old new = a @ new @ py_replace b old new"
  by (simp add: py_replace_def replace_scan_first)

lemma replace_scan_none:
  assumes "old \<noteq> []"
  shows "\<not> contains s old \<Longrightarrow> replace_scan old new s = s"
proof (induction s)
  case Nil
  show ?case by (simp add: replace_scan.simps)
next
  case (Cons x xs)
  have n0: "\<not> startswith (x # xs) old"
    using Cons.prems unfolding contains_iff by (metis drop0 le0)
  have "\<not> contains xs old"
  proof
    assume "contains xs old"
    then obtain i where "i \<le> length xs" "startswith (drop i xs) old"
      unfolding contains_iff by blast
    then have "Suc i \<le> length (x # xs) \<and> startswith (drop (Suc i) (x # xs)) old" by simp
    with Cons.prems show False unfolding contains_iff by blast
  qed
  then have "replace_scan old new xs = xs" by (rule Cons.IH)
  with assms n0 show ?case by (subst replace_scan.simps) simp
qed

lemma py_replace_none: "\<not> contains s old \<Longrightarrow> py_replace s old new = s"
proof -
  assume n: "\<not> contains s old"
  have "contains s []"
    unfolding contains_iff by (rule exI [of _ 0]) (simp add: startswith_def)
  with n have "old \<noteq> []" by auto
  then show ?thesis using n by (simp add: py_replace_def replace_scan_none)
qed

section \<open>The currency found in a token\<close>

lemma find_currency_None:
  assumes "\<forall>(k, v)\<in>set CURRENCY. \<not> startswith s k \<and> \<not> startswith s v \<and> \<not> endswith s k \<and> \<not> endswith s v"
  shows "find_currency CURRENCY s = None"
  using assms by (auto simp: find_currency_def find_None_iff has_currency_def)

lemma find_currency_Some:
  assumes "find_currency CURRENCY raw = Some (key, val)"
  shows "(key, val) \<in> set CURRENCY" 
    and "startswith raw key \<or> startswith raw val \<or> endswith raw key \<or> endswith raw val"
proof -
  from assms obtain i where "i < length CURRENCY" "CURRENCY ! i = (key, val)"
    and h: "has_currency raw (key, val)"
    by (auto simp: find_currency_def find_Some_iff)
  then show "(key, val) \<in> set CURRENCY" by (metis nth_mem)
  from h show "startswith raw key \<or> startswith raw val \<or> endswith raw key \<or> endswith raw val"
    by (auto simp: has_currency_def)
qed

section \<open>The result of \<^verbatim>\<open>get_amount_and_currency\<close>\<close>

lemma amount_without_marker:
  assumes "\<forall>(k, v)\<in>set CURRENCY. \<not> startswith s k \<and> \<not> startswith s v \<and> \<not> endswith s k \<and> \<not> endswith s v"
  shows "get_amount_and_currency Decimal CURRENCY d s =
           (case Decimal (py_replace s '','' ''.'') of
              None \<Rightarrow> Inl (ParameterError (amount_text CURRENCY s))
            | Some a \<Rightarrow> Inr (a, None, a))"
proof -
  have f: "find_currency CURRENCY s = None" using assms by (rule find_currency_None)
  then have w: "amount_without_currency CURRENCY s = s"
    by (simp add: amount_without_currency_def py_replace_empty)
  show ?thesis
    unfolding get_amount_and_currency_def w f by (simp split: option.splits)
qed

lemma amount_plain:
  assumes "Decimal s = Some a" and "CHR '','' \<notin> set s"
    and "\<forall>(k, v)\<in>set CURRENCY. \<not> startswith s k \<and> \<not> startswith s v \<and> \<not> endswith s k \<and> \<not> endswith s v"
  shows "get_amount_and_currency Decimal CURRENCY d s = Inr (a, None, a)"
proof -
  have "py_replace s '','' ''.'' = s" using assms(2) by (rule py_replace_absent)
  with assms(1) show ?thesis unfolding amount_without_marker [OF assms(3)] by simp
qed

lemma amount_with_currency:
  assumes "find_currency CURRENCY raw = Some (key, val)"
  shows "get_amount_and_currency Decimal CURRENCY d raw =
           (case Decimal (py_replace (py_replace (py_replace raw val []) key []) '','' ''.'') of
              None \<Rightarrow>
                Inl (ParameterError (amount_text CURRENCY (py_replace (py_replace raw val []) key [])))
            | Some original_amount \<Rightarrow>
                (case last_exchange_rate d key of
                   None \<Rightarrow> Inr (original_amount, None, original_amount)
                 | Some r \<Rightarrow>
                     (case dec_mul original_amount (rate r) of
                        Inl e \<Rightarrow> Inl e
                      | Inr amount \<Rightarrow> Inr (amount, Some r, original_amount))))"
proof -
  have w: "amount_without_currency CURRENCY raw = py_replace (py_replace raw val []) key []"
    using assms by (simp add: amount_without_currency_def)
  show ?thesis
    unfolding get_amount_and_currency_def w assms
    by (simp split: option.splits sum.splits)
qed

section \<open>Amounts without a currency\<close>

text \<open>
  Claim C4. Let \<open>s\<close> be a string that neither starts nor ends with a code or a symbol of
  the currency table. If \<open>s\<close> is a valid decimal literal, with \<^verbatim>\<open>Decimal(s)\<close> the number \<open>a\<close>,
  then \<^verbatim>\<open>get_amount_and_currency\<close> returns the amount \<open>a\<close>, no exchange rate, and the
  original amount \<open>a\<close>: nothing is converted. This is proved for \<^verbatim>\<open>Decimal\<close> as CPython
  computes it, and for every function \<open>Decimal\<close> from strings to numbers where \<open>s\<close> has no
  comma (\<^verbatim>\<open>Decimal\<close> of CPython takes no string with a comma). For any such \<open>s\<close> and any
  function \<open>Decimal\<close> the result is decided by \<open>Decimal\<close> on \<open>s\<close> with every comma replaced
  by a period, and never carries an exchange rate.
\<close>

theorem no_marker_amount:
  assumes "\<forall>(k, v)\<in>set CURRENCY. \<not> startswith s k \<and> \<not> startswith s v \<and> \<not> endswith s k \<and> \<not> endswith s v"
  shows "(\<forall>a. py_Decimal s = Some a \<longrightarrow>
            get_amount_and_currency py_Decimal CURRENCY d s = Inr (a, None, a)) \<and>
         (\<forall>a. Decimal s = Some a \<and> CHR '','' \<notin> set s \<longrightarrow>
            get_amount_and_currency Decimal CURRENCY d s = Inr (a, None, a)) \<and>
         get_amount_and_currency Decimal CURRENCY d s =
           (case Decimal (py_replace s '','' ''.'') of
              None \<Rightarrow> Inl (ParameterError (amount_text CURRENCY s))
            | Some a \<Rightarrow> Inr (a, None, a))"
proof (intro conjI allI impI)
  fix a assume v: "py_Decimal s = Some a"
  then have "CHR '','' \<notin> set s" by (rule py_Decimal_no_comma)
  with v show "get_amount_and_currency py_Decimal CURRENCY d s = Inr (a, None, a)"
    using assms by (rule amount_plain)
next
  fix a assume "Decimal s = Some a \<and> CHR '','' \<notin> set s"
  then have "Decimal s = Some a" and "CHR '','' \<notin> set s" by simp_all
  then show "get_amount_and_currency Decimal CURRENCY d s = Inr (a, None, a)"
    using assms by (rule amount_plain)
next
  show "get_amount_and_currency Decimal CURRENCY d s =
           (case Decimal (py_replace s '','' ''.'') of
              None \<Rightarrow> Inl (ParameterError (amount_text CURRENCY s))
            | Some a \<Rightarrow> Inr (a, None, a))"
    using assms by (rule amount_without_marker)
qed

theorem no_marker_amount_witness:
  "py_Decimal ''12.50'' = Some (Finite False 1250 (- 2)) \<and>
   CHR '','' \<notin> set ''12.50'' \<and>
   get_amount_and_currency py_Decimal example_currency example_rates ''12.50''
     = Inr (Finite False 1250 (- 2), None, Finite False 1250 (- 2))"
proof -
  have v: "py_Decimal ''12.50'' = Some (Finite False 1250 (- 2))" by (simp add: decimal_eval)
  have c: "CHR '','' \<notin> set ''12.50''" by simp
  have n: "\<forall>(k, v)\<in>set example_currency.
             \<not> startswith ''12.50'' k \<and> \<not> startswith ''12.50'' v \<and>
             \<not> endswith ''12.50'' k \<and> \<not> endswith ''12.50'' v"
    by (simp add: example_currency_def startswith_def endswith_def)
  from no_marker_amount [OF n, where Decimal = py_Decimal and d = example_rates]
  have "\<forall>a. py_Decimal ''12.50'' = Some a \<longrightarrow>
          get_amount_and_currency py_Decimal example_currency example_rates ''12.50'' = Inr (a, None, a)"
    by (rule conjunct1)
  from this [rule_format, OF v]
  have r: "get_amount_and_currency py_Decimal example_currency example_rates ''12.50''
     = Inr (Finite False 1250 (- 2), None, Finite False 1250 (- 2))" .
  show ?thesis by (intro conjI) (rule v, rule c, rule r)
qed

section \<open>Products that the context holds exactly\<close>

lemma ndigits_le: "0 < k \<Longrightarrow> n < 10 ^ k \<Longrightarrow> ndigits n \<le> k"
proof (induction k arbitrary: n)
  case 0
  then show ?case by simp
next
  case (Suc j)
  show ?case
  proof (cases "n < 10")
    case True
    then show ?thesis by (simp add: ndigits.simps)
  next
    case False
    with Suc.prems have j: "0 < j" by (cases j) auto
    from Suc.prems have "n div 10 < 10 ^ j" by (simp add: less_mult_imp_div_less mult.commute)
    with j have "ndigits (n div 10) \<le> j" by (rule Suc.IH)
    with False show ?thesis by (subst ndigits.simps) simp
  qed
qed

lemma dec_fix_exact:
  assumes "c \<noteq> 0" and "ndigits c \<le> prec" and "Etiny \<le> e" and "e \<le> Etop"
  shows "dec_fix (Finite s c e) = Inr (Finite s c e)"
proof -
  have a: "int (ndigits c) + e - int prec \<le> e" using assms(2) by simp
  then have b: "\<not> Etop < int (ndigits c) + e - int prec" using assms(4) by simp
  have c: "\<not> e < max (int (ndigits c) + e - int prec) Etiny" using a assms(3) by simp
  show ?thesis using assms(1) b c by (simp add: Let_def)
qed

lemma dec_mul_10_rate:
  assumes "k \<le> 25"
  shows "dec_mul (Finite False 10 0) (Finite False (35 * 10 ^ k) (- 1 - int k))
           = Inr (Finite False (350 * 10 ^ k) (- 1 - int k))"
proof -
  have "(350::nat) * 10 ^ k < 10 ^ 3 * 10 ^ k" by simp
  also have "\<dots> = 10 ^ (k + 3)" by (simp add: power_add)
  also have "\<dots> \<le> (10::nat) ^ 28" using assms by (intro power_increasing) simp_all
  finally have "ndigits (350 * 10 ^ k) \<le> 28" by (intro ndigits_le) simp_all
  then have n: "ndigits (350 * 10 ^ k) \<le> prec" by (simp add: prec_def)
  have z: "(350::nat) * 10 ^ k \<noteq> 0" by simp
  have lo: "Etiny \<le> - 1 - int k" using assms by (simp add: Etiny_def Emin_def prec_def)
  have hi: "- 1 - int k \<le> Etop" by (simp add: Etop_def Emax_def prec_def)
  have "dec_mul (Finite False 10 0) (Finite False (35 * 10 ^ k) (- 1 - int k))
          = dec_fix (Finite False (350 * 10 ^ k) (- 1 - int k))"
    by (simp add: dec_mul_def)
  also have "\<dots> = Inr (Finite False (350 * 10 ^ k) (- 1 - int k))"
    using z n lo hi by (rule dec_fix_exact)
  finally show ?thesis .
qed

lemma dec_eq_35: "dec_eq (Finite False (350 * 10 ^ k) (- 1 - int k)) (Finite False 3500 (- 2)) = Inr True"
proof (cases k)
  case 0
  then show ?thesis by (simp add: dec_eq_def)
next
  case (Suc j)
  have m: "min (- 1 - int k) (- 2) = - 1 - int k" using Suc by simp
  have e: "nat (- 2 - (- 1 - int k)) = j" using Suc by simp
  show ?thesis
    unfolding dec_eq_def by (simp add: m e Let_def) (simp add: Suc)
qed

section \<open>Amounts in a currency with a stored rate\<close>

text \<open>
  Claim C5. In general: where a currency is found in the token, an exchange rate of that
  currency is stored and the remainder of the token is a valid decimal, the original
  amount is that decimal, the exchange rate is the last stored one of the currency, and
  the amount is the product of the original amount and the rate (the result is the
  exception of the product where the product raises). For the token \<^verbatim>\<open>10u\<close>, where \<^verbatim>\<open>u\<close> is the
  symbol or the code of the currency found, \<^verbatim>\<open>Decimal('10')\<close> is 10 and the rate of the last
  stored exchange rate is 3.5, written with any number of zeros at its end (3.5, 3.50,
  ...): the amount equals 35.00, the original amount is 10, and the exchange rate is that
  of the currency. This holds for every function \<open>Decimal\<close> from strings to numbers.
\<close>

theorem converted_amount:
  "(find_currency CURRENCY raw = Some (key, val) \<and> last_exchange_rate d key = Some r \<and>
    Decimal (py_replace (py_replace (py_replace raw val []) key []) '','' ''.'') = Some original_amount \<longrightarrow>
      get_amount_and_currency Decimal CURRENCY d raw =
        (case dec_mul original_amount (rate r) of
           Inl e \<Rightarrow> Inl e
         | Inr amount \<Rightarrow> Inr (amount, Some r, original_amount)) \<and>
      currency r = key) \<and>
   (find_currency CURRENCY ''10u'' = Some (key, val) \<and>
    (val = ''u'' \<and> \<not> contains ''10'' key \<or> key = ''u'' \<and> \<not> contains ''10u'' val) \<and>
    Decimal ''10'' = Some (Finite False 10 0) \<and>
    last_exchange_rate d key = Some r \<and>
    k \<le> 25 \<and> rate r = Finite False (35 * 10 ^ k) (- 1 - int k) \<longrightarrow>
      get_amount_and_currency Decimal CURRENCY d ''10u''
        = Inr (Finite False (350 * 10 ^ k) (- 1 - int k), Some r, Finite False 10 0) \<and>
      dec_eq (Finite False (350 * 10 ^ k) (- 1 - int k)) (Finite False 3500 (- 2)) = Inr True \<and>
      currency r = key)"
proof (intro conjI impI)
  assume a: "find_currency CURRENCY raw = Some (key, val) \<and> last_exchange_rate d key = Some r \<and>
    Decimal (py_replace (py_replace (py_replace raw val []) key []) '','' ''.'') = Some original_amount"
  then have f: "find_currency CURRENCY raw = Some (key, val)" by simp
  show "get_amount_and_currency Decimal CURRENCY d raw =
        (case dec_mul original_amount (rate r) of
           Inl e \<Rightarrow> Inl e
         | Inr amount \<Rightarrow> Inr (amount, Some r, original_amount))"
    unfolding amount_with_currency [OF f] using a by simp
  show "currency r = key" using a last_exchange_rate_currency by blast
next
  assume a: "find_currency CURRENCY ''10u'' = Some (key, val) \<and>
    (val = ''u'' \<and> \<not> contains ''10'' key \<or> key = ''u'' \<and> \<not> contains ''10u'' val) \<and>
    Decimal ''10'' = Some (Finite False 10 0) \<and>
    last_exchange_rate d key = Some r \<and>
    k \<le> 25 \<and> rate r = Finite False (35 * 10 ^ k) (- 1 - int k)"
  then have f: "find_currency CURRENCY ''10u'' = Some (key, val)" and k: "k \<le> 25" by simp_all
  have u: "py_replace ''10u'' ''u'' [] = ''10''" by (simp add: py_replace_char)
  from a have "val = ''u'' \<and> \<not> contains ''10'' key \<or> key = ''u'' \<and> \<not> contains ''10u'' val"
    by simp
  then have w: "py_replace (py_replace ''10u'' val []) key [] = ''10''"
  proof
    assume "val = ''u'' \<and> \<not> contains ''10'' key"
    then show ?thesis using u by (simp add: py_replace_none)
  next
    assume "key = ''u'' \<and> \<not> contains ''10u'' val"
    then show ?thesis using u by (simp add: py_replace_none)
  qed
  have c: "py_replace ''10'' '','' ''.'' = ''10''" by (simp add: py_replace_absent)
  show "get_amount_and_currency Decimal CURRENCY d ''10u''
        = Inr (Finite False (350 * 10 ^ k) (- 1 - int k), Some r, Finite False 10 0)"
    unfolding amount_with_currency [OF f] w c using a dec_mul_10_rate [OF k] by simp
  show "dec_eq (Finite False (350 * 10 ^ k) (- 1 - int k)) (Finite False 3500 (- 2)) = Inr True"
    by (rule dec_eq_35)
  show "currency r = key" using a last_exchange_rate_currency by blast
qed

lemma find_currency_10u: "find_currency example_currency ''10u'' = Some (''usd'', ''u'')"
  by (simp add: find_currency_def has_currency_def startswith_def endswith_def example_currency_def)

lemma last_rate_usd: "last_exchange_rate example_rates ''usd'' = Some example_rate_35"
  by (simp add: last_exchange_rate_def example_rates_def example_rate_35_def example_rate_30_def)

theorem converted_amount_witness:
  "find_currency example_currency ''10u'' = Some (''usd'', ''u'') \<and>
   \<not> contains ''10'' ''usd'' \<and>
   py_Decimal ''10'' = Some (Finite False 10 0) \<and>
   last_exchange_rate example_rates ''usd'' = Some example_rate_35 \<and>
   rate example_rate_35 = Finite False (35 * 10 ^ 0) (- 1 - int 0) \<and>
   get_amount_and_currency py_Decimal example_currency example_rates ''10u''
     = Inr (Finite False 350 (- 1), Some example_rate_35, Finite False 10 0) \<and>
   dec_eq (Finite False 350 (- 1)) (Finite False 3500 (- 2)) = Inr True \<and>
   currency example_rate_35 = ''usd''"
proof -
  have n: "\<not> contains ''10'' ''usd''" by (simp add: contains_def startswith_def)
  have r: "rate example_rate_35 = Finite False (35 * 10 ^ 0) (- 1 - int 0)"
    by (simp add: example_rate_35_def)
  have k: "(0::nat) \<le> 25" by simp
  have h: "find_currency example_currency ''10u'' = Some (''usd'', ''u'') \<and>
    (''u'' = ''u'' \<and> \<not> contains ''10'' ''usd'' \<or> ''usd'' = ''u'' \<and> \<not> contains ''10u'' ''u'') \<and>
    py_Decimal ''10'' = Some (Finite False 10 0) \<and>
    last_exchange_rate example_rates ''usd'' = Some example_rate_35 \<and>
    (0::nat) \<le> 25 \<and> rate example_rate_35 = Finite False (35 * 10 ^ 0) (- 1 - int 0)"
    using find_currency_10u n Decimal_10 last_rate_usd r by simp
  from converted_amount [of example_currency "''10u''" "''usd''" "''u''" example_rates
      example_rate_35 py_Decimal "Finite False 10 0" 0]
  have "find_currency example_currency ''10u'' = Some (''usd'', ''u'') \<and>
    (''u'' = ''u'' \<and> \<not> contains ''10'' ''usd'' \<or> ''usd'' = ''u'' \<and> \<not> contains ''10u'' ''u'') \<and>
    py_Decimal ''10'' = Some (Finite False 10 0) \<and>
    last_exchange_rate example_rates ''usd'' = Some example_rate_35 \<and>
    (0::nat) \<le> 25 \<and> rate example_rate_35 = Finite False (35 * 10 ^ 0) (- 1 - int 0) \<longrightarrow>
      get_amount_and_currency py_Decimal example_currency example_rates ''10u''
        = Inr (Finite False (350 * 10 ^ 0) (- 1 - int 0), Some example_rate_35, Finite False 10 0) \<and>
      dec_eq (Finite False (350 * 10 ^ 0) (- 1 - int 0)) (Finite False 3500 (- 2)) = Inr True \<and>
      currency example_rate_35 = ''usd''"
    by (rule conjunct2)
  from this h
  have "get_amount_and_currency py_Decimal example_currency example_rates ''10u''
        = Inr (Finite False (350 * 10 ^ 0) (- 1 - int 0), Some example_rate_35, Finite False 10 0) \<and>
      dec_eq (Finite False (350 * 10 ^ 0) (- 1 - int 0)) (Finite False 3500 (- 2)) = Inr True \<and>
      currency example_rate_35 = ''usd''"
    by (rule mp)
  then have g: "get_amount_and_currency py_Decimal example_currency example_rates ''10u''
        = Inr (Finite False 350 (- 1), Some example_rate_35, Finite False 10 0)"
    and e: "dec_eq (Finite False 350 (- 1)) (Finite False 3500 (- 2)) = Inr True"
    and c: "currency example_rate_35 = ''usd''"
    by simp_all
  show ?thesis
    by (intro conjI) (rule find_currency_10u, rule n, rule Decimal_10, rule last_rate_usd, rule r,
        rule g, rule e, rule c)
qed

section \<open>The lines of the message\<close>

lemma contains_intro: "s = a @ p @ b \<Longrightarrow> contains s p"
  using contains_append by blast

lemma amount_text_lines:
  assumes "(k, v) \<in> set CURRENCY"
  shows "\<exists>a b. amount_text CURRENCY w = a @ currency_lines (k, v) @ b"
proof -
  from assms obtain xs ys where "CURRENCY = xs @ (k, v) # ys" by (meson split_list)
  then have "amount_text CURRENCY w =
      (amount_text_head @ concat (map currency_lines xs)) @ currency_lines (k, v) @
      (concat (map currency_lines ys) @
       ([CHR 0x0A, CHR 0x0A] @ '' El valor '' @ [CHR 0x22] @ w @ [CHR 0x22] @
        '' no es un n'' @ [CHR 0xC3, CHR 0xBA] @ ''mero v'' @ [CHR 0xC3, CHR 0xA1] @ ''lido.''))"
    by (simp add: amount_text_def)
  then show ?thesis by blast
qed

section \<open>The message for an invalid amount\<close>

text \<open>
  Claim C6. For every amount token whose remainder, after the currency is taken out and
  every comma is replaced by a period, is not a valid decimal (\<^verbatim>\<open>Decimal\<close> raises
  \<^verbatim>\<open>InvalidOperation\<close> on it), \<^verbatim>\<open>get_amount_and_currency\<close> fails with an error whose message
  contains every code and every symbol of the currency table. This holds for every
  function \<open>Decimal\<close> from strings to numbers.
\<close>

theorem invalid_amount_message:
  assumes "Decimal (py_replace (amount_without_currency CURRENCY raw) '','' ''.'') = None"
  shows "get_amount_and_currency Decimal CURRENCY d raw
           = Inl (ParameterError (amount_text CURRENCY (amount_without_currency CURRENCY raw))) \<and>
         (\<forall>(k, v)\<in>set CURRENCY.
            contains (amount_text CURRENCY (amount_without_currency CURRENCY raw)) k \<and>
            contains (amount_text CURRENCY (amount_without_currency CURRENCY raw)) v)"
proof (intro conjI ballI)
  show "get_amount_and_currency Decimal CURRENCY d raw
           = Inl (ParameterError (amount_text CURRENCY (amount_without_currency CURRENCY raw)))"
    using assms by (simp add: get_amount_and_currency_def)
next
  fix kv assume kv: "kv \<in> set CURRENCY"
  obtain k v where e: "kv = (k, v)" by (cases kv)
  let ?t = "amount_text CURRENCY (amount_without_currency CURRENCY raw)"
  from kv e obtain a b where t: "?t = a @ currency_lines (k, v) @ b"
    using amount_text_lines by blast
  have "?t = (a @ [CHR 0x0A] @ '' - '') @ k @ ('' ('' @ v @ '')'' @ [CHR 0x0A] @ '' - '' @ v @ b)"
    unfolding t by (simp add: currency_lines_def)
  then have ck: "contains ?t k" by (rule contains_intro)
  have "?t = (a @ [CHR 0x0A] @ '' - '' @ k @ '' ('') @ v @ ('')'' @ [CHR 0x0A] @ '' - '' @ v @ b)"
    unfolding t by (simp add: currency_lines_def)
  then have cv: "contains ?t v" by (rule contains_intro)
  from ck cv e show "case kv of (k, v) \<Rightarrow> contains ?t k \<and> contains ?t v" by simp
qed

lemma without_abc: "amount_without_currency example_currency ''abc'' = ''abc''"
  by (simp add: amount_eval example_currency_def)

theorem invalid_amount_message_witness:
  "py_Decimal (py_replace (amount_without_currency example_currency ''abc'') '','' ''.'') = None \<and>
   get_amount_and_currency py_Decimal example_currency example_rates ''abc''
     = Inl (ParameterError (amount_text example_currency ''abc'')) \<and>
   contains (amount_text example_currency ''abc'') ''usd'' \<and>
   contains (amount_text example_currency ''abc'') ''u'' \<and>
   contains (amount_text example_currency ''abc'') ''eur'' \<and>
   contains (amount_text example_currency ''abc'') ''e''"
proof -
  have n: "py_Decimal (py_replace (amount_without_currency example_currency ''abc'') '','' ''.'') = None"
    unfolding without_abc by (simp add: py_replace_absent decimal_eval)
  from invalid_amount_message [where Decimal = py_Decimal and d = example_rates, OF n]
  have g: "get_amount_and_currency py_Decimal example_currency example_rates ''abc''
             = Inl (ParameterError (amount_text example_currency ''abc''))"
    and b: "\<forall>(k, v)\<in>set example_currency.
              contains (amount_text example_currency ''abc'') k \<and>
              contains (amount_text example_currency ''abc'') v"
    unfolding without_abc by simp_all
  from b have c: "contains (amount_text example_currency ''abc'') ''usd''"
      "contains (amount_text example_currency ''abc'') ''u''"
      "contains (amount_text example_currency ''abc'') ''eur''"
      "contains (amount_text example_currency ''abc'') ''e''"
    by (simp_all add: example_currency_def)
  show ?thesis by (intro conjI) (rule n, rule g, rule c(1), rule c(2), rule c(3), rule c(4))
qed

text \<open>
  With the library functions of CPython: an exponent that no context holds makes the
  amount invalid, and the digits of another script are read as digits (here the
  Arabic-Indic digits one and zero).
\<close>

lemma exponent_out_of_range:
  "get_amount_and_currency py_Decimal example_currency example_rates ''1e99999999999999999999''
     = Inl (ParameterError (amount_text example_currency ''1e99999999999999999999''))"
proof -
  have w: "amount_without_currency example_currency ''1e99999999999999999999''
             = ''1e99999999999999999999''"
    by (simp add: amount_eval example_currency_def)
  have "py_Decimal (py_replace ''1e99999999999999999999'' '','' ''.'') = None"
    by (simp add: py_replace_absent decimal_eval)
  then show ?thesis by (simp add: get_amount_and_currency_def w)
qed

lemma digits_of_another_script:
  "get_amount_and_currency py_Decimal example_currency example_rates
     [CHR 0xD9, CHR 0xA1, CHR 0xD9, CHR 0xA0]
     = Inr (Finite False 10 0, None, Finite False 10 0)"
proof -
  have n: "\<forall>(k, v)\<in>set example_currency.
             \<not> startswith [CHR 0xD9, CHR 0xA1, CHR 0xD9, CHR 0xA0] k \<and>
             \<not> startswith [CHR 0xD9, CHR 0xA1, CHR 0xD9, CHR 0xA0] v \<and>
             \<not> endswith [CHR 0xD9, CHR 0xA1, CHR 0xD9, CHR 0xA0] k \<and>
             \<not> endswith [CHR 0xD9, CHR 0xA1, CHR 0xD9, CHR 0xA0] v"
    by (simp add: example_currency_def startswith_def endswith_def)
  have d: "py_Decimal [CHR 0xD9, CHR 0xA1, CHR 0xD9, CHR 0xA0] = Some (Finite False 10 0)"
    by (simp add: decimal_eval unicode_decimal_def decimal_zeros_def)
  have c: "CHR '','' \<notin> set [CHR 0xD9, CHR 0xA1, CHR 0xD9, CHR 0xA0]" by simp
  from d c n show ?thesis by (rule amount_plain [where Decimal = py_Decimal])
qed

section \<open>Taking the currency out of the token\<close>

text \<open>
  Claim C9. For every token in which a currency is found (the token starts or ends with
  the code or the symbol), the number that \<^verbatim>\<open>get_amount_and_currency\<close> reads and reports is
  read from the token with the symbol replaced by nothing everywhere and then the code
  replaced by nothing everywhere (and every comma replaced by a period): that remainder
  decides whether the error is raised, is quoted in the message of the error, and gives
  the original amount. An occurrence at any place is deleted, not only the prefix or
  suffix that was found: where the first occurrence of the symbol stands after any text
  \<open>a\<close>, the result is \<open>a\<close> followed by the rest with its occurrences deleted in turn, and
  likewise for the code; a symbol of one character is deleted everywhere. This holds for
  every function \<open>Decimal\<close> from strings to numbers.
\<close>

theorem all_occurrences_removed:
  assumes "find_currency CURRENCY raw = Some (key, val)"
  shows "(startswith raw key \<or> startswith raw val \<or> endswith raw key \<or> endswith raw val) \<and>
         get_amount_and_currency Decimal CURRENCY d raw =
           (case Decimal (py_replace (py_replace (py_replace raw val []) key []) '','' ''.'') of
              None \<Rightarrow>
                Inl (ParameterError (amount_text CURRENCY (py_replace (py_replace raw val []) key [])))
            | Some original_amount \<Rightarrow>
                (case last_exchange_rate d key of
                   None \<Rightarrow> Inr (original_amount, None, original_amount)
                 | Some r \<Rightarrow>
                     (case dec_mul original_amount (rate r) of
                        Inl e \<Rightarrow> Inl e
                      | Inr amount \<Rightarrow> Inr (amount, Some r, original_amount)))) \<and>
         (\<forall>a b. val \<noteq> [] \<and> raw = a @ val @ b \<and> \<not> contains (a @ butlast val) val \<longrightarrow>
            py_replace raw val [] = a @ py_replace b val []) \<and>
         (\<forall>a b. key \<noteq> [] \<and> py_replace raw val [] = a @ key @ b \<and> \<not> contains (a @ butlast key) key \<longrightarrow>
            py_replace (py_replace raw val []) key [] = a @ py_replace b key []) \<and>
         (\<forall>c. val = [c] \<longrightarrow> py_replace raw val [] = filter (\<lambda>x. x \<noteq> c) raw)"
proof (intro conjI allI impI)
  show "startswith raw key \<or> startswith raw val \<or> endswith raw key \<or> endswith raw val"
    using assms by (rule find_currency_Some(2))
  show "get_amount_and_currency Decimal CURRENCY d raw =
           (case Decimal (py_replace (py_replace (py_replace raw val []) key []) '','' ''.'') of
              None \<Rightarrow>
                Inl (ParameterError (amount_text CURRENCY (py_replace (py_replace raw val []) key [])))
            | Some original_amount \<Rightarrow>
                (case last_exchange_rate d key of
                   None \<Rightarrow> Inr (original_amount, None, original_amount)
                 | Some r \<Rightarrow>
                     (case dec_mul original_amount (rate r) of
                        Inl e \<Rightarrow> Inl e
                      | Inr amount \<Rightarrow> Inr (amount, Some r, original_amount))))"
    using assms by (rule amount_with_currency)
  fix a b
  { assume "val \<noteq> [] \<and> raw = a @ val @ b \<and> \<not> contains (a @ butlast val) val"
    then show "py_replace raw val [] = a @ py_replace b val []"
      using py_replace_first [of val a b "[]"] by simp }
  { assume "key \<noteq> [] \<and> py_replace raw val [] = a @ key @ b \<and> \<not> contains (a @ butlast key) key"
    then show "py_replace (py_replace raw val []) key [] = a @ py_replace b key []"
      using py_replace_first [of key a b "[]"] by simp }
next
  fix c assume "val = [c]"
  then show "py_replace raw val [] = filter (\<lambda>x. x \<noteq> c) raw" by (simp add: py_replace_char)
qed

lemma find_currency_1u0u: "find_currency example_currency ''1u0u'' = Some (''usd'', ''u'')"
  by (simp add: find_currency_def has_currency_def startswith_def endswith_def example_currency_def)

theorem all_occurrences_removed_witness:
  "find_currency example_currency ''1u0u'' = Some (''usd'', ''u'') \<and>
   py_replace ''1u0u'' ''u'' [] = ''10'' \<and>
   py_replace (py_replace (py_replace ''1u0u'' ''u'' []) ''usd'' []) '','' ''.'' = ''10'' \<and>
   py_Decimal ''10'' = Some (Finite False 10 0) \<and>
   get_amount_and_currency py_Decimal example_currency example_rates ''1u0u''
     = Inr (Finite False 350 (- 1), Some example_rate_35, Finite False 10 0)"
proof -
  have u: "py_replace ''1u0u'' ''u'' [] = ''10''" by (simp add: py_replace_char)
  have r: "py_replace (py_replace (py_replace ''1u0u'' ''u'' []) ''usd'' []) '','' ''.'' = ''10''"
    unfolding u by (simp add: py_replace_def replace_scan.simps startswith_def)
  have m: "dec_mul (Finite False 10 0) (rate example_rate_35) = Inr (Finite False 350 (- 1))"
    by (simp add: example_rate_35_def dec_mul_10_35)
  from all_occurrences_removed [OF find_currency_1u0u, where Decimal = py_Decimal and d = example_rates]
  have "get_amount_and_currency py_Decimal example_currency example_rates ''1u0u'' =
           (case py_Decimal (py_replace (py_replace (py_replace ''1u0u'' ''u'' []) ''usd'' []) '','' ''.'') of
              None \<Rightarrow>
                Inl (ParameterError (amount_text example_currency (py_replace (py_replace ''1u0u'' ''u'' []) ''usd'' [])))
            | Some original_amount \<Rightarrow>
                (case last_exchange_rate example_rates ''usd'' of
                   None \<Rightarrow> Inr (original_amount, None, original_amount)
                 | Some r \<Rightarrow>
                     (case dec_mul original_amount (rate r) of
                        Inl e \<Rightarrow> Inl e
                      | Inr amount \<Rightarrow> Inr (amount, Some r, original_amount))))"
    by (elim conjE)
  then have g: "get_amount_and_currency py_Decimal example_currency example_rates ''1u0u''
     = Inr (Finite False 350 (- 1), Some example_rate_35, Finite False 10 0)"
    unfolding r Decimal_10 last_rate_usd by (simp add: m)
  show ?thesis
    by (intro conjI) (rule find_currency_1u0u, rule u, rule r, rule Decimal_10, rule g)
qed

section \<open>Taking a modifier out of the tokens\<close>

lemma py_index_Some:
  "py_index ps x = Some i \<Longrightarrow> i < length ps \<and> ps ! i = x \<and> x \<notin> set (take i ps)"
proof (induction ps arbitrary: i)
  case Nil
  then show ?case by simp
next
  case (Cons y ys)
  show ?case
  proof (cases "y = x")
    case True
    with Cons.prems show ?thesis by simp
  next
    case False
    with Cons.prems obtain j where j: "py_index ys x = Some j" "i = Suc j"
      by (auto split: option.splits)
    from Cons.IH [OF j(1)] j(2) False show ?thesis by simp
  qed
qed

lemma py_index_None: "py_index ps x = None \<longleftrightarrow> x \<notin> set ps"
  by (induction ps) (auto split: option.splits)

lemma py_pop_first: "i < length ps \<Longrightarrow> py_pop ps i = Some (ps ! i, take i ps @ drop (Suc i) ps)"
  by (simp add: py_pop_def)

lemma nth_after_pop: "Suc i < length ps \<Longrightarrow> (take i ps @ drop (Suc i) ps) ! i = ps ! Suc i"
  by (simp add: nth_append)

lemma pop_after_pop:
  "i < length ps \<Longrightarrow>
   take i (take i ps @ drop (Suc i) ps) @ drop (Suc i) (take i ps @ drop (Suc i) ps)
     = take i ps @ drop (i + 2) ps"
  by (simp add: min_def)

lemma py_pop_second:
  assumes "Suc i < length ps"
  shows "py_pop (take i ps @ drop (Suc i) ps) i = Some (ps ! Suc i, take i ps @ drop (i + 2) ps)"
proof -
  have a: "i < length (take i ps @ drop (Suc i) ps)" using assms by simp
  have i: "i < length ps" using assms by simp
  show ?thesis
    unfolding py_pop_def using a
    by (simp only: if_True nth_after_pop [OF assms] pop_after_pop [OF i])
qed

lemma py_pop_second_none:
  assumes "Suc i = length ps"
  shows "py_pop (take i ps @ drop (Suc i) ps) i = None"
proof -
  have "i < length ps" using assms by linarith
  then have "length (take i ps @ drop (Suc i) ps) = length ps - 1" by simp
  with assms have "\<not> i < length (take i ps @ drop (Suc i) ps)" by linarith
  then show ?thesis unfolding py_pop_def by (simp only: if_False)
qed

lemma pop_argument_found:
  assumes "py_index ps kw = Some i"
  shows "pop_argument kw text ps =
      (case py_pop (take i ps @ drop (Suc i) ps) i of
         None \<Rightarrow> Inl (ParameterError text)
       | Some (v, params'') \<Rightarrow> Inr (Some v, params''))"
proof -
  have "i < length ps" using py_index_Some [OF assms] by simp
  then have p: "py_pop ps i = Some (ps ! i, take i ps @ drop (Suc i) ps)" by (rule py_pop_first)
  show ?thesis
    unfolding pop_argument_def by (simp only: assms p option.case prod.case)
qed

lemma pop_argument_eq:
  "pop_argument kw text ps =
     (if value_missing kw ps then Inl (ParameterError text)
      else Inr (modifier_value kw ps, without_modifier kw ps))"
proof (cases "py_index ps kw")
  case None
  then show ?thesis
    by (simp add: pop_argument_def value_missing_def modifier_value_def without_modifier_def)
next
  case (Some i)
  have i: "i < length ps" using py_index_Some [OF Some] by simp
  show ?thesis
  proof (cases "Suc i < length ps")
    case True
    have vm: "\<not> value_missing kw ps" using Some True by (simp add: value_missing_def)
    have mv: "modifier_value kw ps = Some (ps ! Suc i)"
      using Some True by (simp add: modifier_value_def)
    have wm: "without_modifier kw ps = take i ps @ drop (i + 2) ps"
      using Some by (simp add: without_modifier_def)
    show ?thesis
      unfolding pop_argument_found [OF Some] py_pop_second [OF True] mv wm using vm by simp
  next
    case False
    with i have e: "Suc i = length ps" by simp
    have vm: "value_missing kw ps" using Some e by (simp add: value_missing_def)
    show ?thesis
      unfolding pop_argument_found [OF Some] py_pop_second_none [OF e] using vm by simp
  qed
qed

lemma look_for_special_arguments_eq:
  "look_for_special_arguments special_arguments ps =
     (if value_missing ''dd'' ps then Inl (ParameterError dd_help)
      else if value_missing ''tt'' (without_modifier ''dd'' ps) then Inl (ParameterError tt_help)
      else Inr ([(''dd'', modifier_value ''dd'' ps),
                 (''tt'', modifier_value ''tt'' (without_modifier ''dd'' ps))],
                without_modifier ''tt'' (without_modifier ''dd'' ps)))"
  by (simp add: special_arguments_def pop_argument_eq)


section \<open>The stages of \<^verbatim>\<open>decode_expense_params\<close>\<close>

lemma decode_expense_params_eq:
  "decode_expense_params Decimal strptime today CURRENCY d (tok # rest) grp =
     (case get_amount_and_currency Decimal CURRENCY d tok of
        Inl e \<Rightarrow> Inl e
      | Inr (amount, exchange_rate, original_amount) \<Rightarrow>
          if value_missing ''dd'' rest then Inl (ParameterError dd_help)
          else if value_missing ''tt'' (without_modifier ''dd'' rest) then Inl (ParameterError tt_help)
          else if without_modifier ''tt'' (without_modifier ''dd'' rest) = []
            then Inl (ParameterError no_description_text)
          else
            (case handle_date strptime today (modifier_value ''dd'' rest) of
               Inl e \<Rightarrow> Inl e
             | Inr dd \<Rightarrow>
                 (case handle_tags d (modifier_value ''tt'' (without_modifier ''dd'' rest)) grp of
                    (tt, d') \<Rightarrow>
                      Inr (\<lparr>data_amount = amount,
                            data_exchange_rate = exchange_rate,
                            data_original_amount = original_amount,
                            data_dd = dd,
                            data_tt = tt,
                            data_description =
                              py_join '' '' (without_modifier ''tt'' (without_modifier ''dd'' rest))\<rparr>, d'))))"
  by (simp add: decode_expense_params_def look_for_special_arguments_eq data_get_def
      split: sum.splits prod.splits)

section \<open>Tags\<close>

lemma get_or_create_tag_fst:
  "fst (get_or_create_tag d name grp) = \<lparr>tag_name = name, tag_group = grp\<rparr>"
proof (cases "find (\<lambda>t. tag_name t = name \<and> tag_group t = grp) (tag_rows d)")
  case None
  then show ?thesis by (simp add: get_or_create_tag_def Let_def)
next
  case (Some t)
  then have "tag_name t = name \<and> tag_group t = grp" by (auto simp: find_Some_iff)
  then have "t = \<lparr>tag_name = name, tag_group = grp\<rparr>" by (cases t) simp
  with Some show ?thesis by (simp add: get_or_create_tag_def)
qed

lemma get_or_create_tag_snd:
  "\<lparr>tag_name = name, tag_group = grp\<rparr> \<in> set (tag_rows (snd (get_or_create_tag d name grp))) \<and>
   exchange_rates (snd (get_or_create_tag d name grp)) = exchange_rates d \<and>
   expense_rows (snd (get_or_create_tag d name grp)) = expense_rows d"
proof (cases "find (\<lambda>t. tag_name t = name \<and> tag_group t = grp) (tag_rows d)")
  case None
  then show ?thesis by (simp add: get_or_create_tag_def Let_def)
next
  case (Some t)
  then obtain i where i: "i < length (tag_rows d)" "tag_rows d ! i = t"
    and nm: "tag_name t = name \<and> tag_group t = grp"
    by (auto simp: find_Some_iff)
  from nm have "t = \<lparr>tag_name = name, tag_group = grp\<rparr>" by (cases t) simp
  moreover from i have "t \<in> set (tag_rows d)" by (metis nth_mem)
  ultimately show ?thesis using Some by (simp add: get_or_create_tag_def)
qed

lemma tags_loop_eq:
  "fst (tags_loop d v grp items acc)
     = acc @ replicate (length items) \<lparr>tag_name = v, tag_group = grp\<rparr> \<and>
   exchange_rates (snd (tags_loop d v grp items acc)) = exchange_rates d \<and>
   expense_rows (snd (tags_loop d v grp items acc)) = expense_rows d \<and>
   (items \<noteq> [] \<or> \<lparr>tag_name = v, tag_group = grp\<rparr> \<in> set (tag_rows d)
      \<longrightarrow> \<lparr>tag_name = v, tag_group = grp\<rparr> \<in> set (tag_rows (snd (tags_loop d v grp items acc))))"
proof (induction items arbitrary: d acc)
  case Nil
  show ?case by simp
next
  case (Cons t ts)
  obtain tg d1 where g: "get_or_create_tag d v grp = (tg, d1)" by (cases "get_or_create_tag d v grp")
  from g have tg: "tg = \<lparr>tag_name = v, tag_group = grp\<rparr>"
    using get_or_create_tag_fst [of d v grp] by simp
  from g have d1: "\<lparr>tag_name = v, tag_group = grp\<rparr> \<in> set (tag_rows d1)"
      "exchange_rates d1 = exchange_rates d" "expense_rows d1 = expense_rows d"
    using get_or_create_tag_snd [of v grp d] by simp_all
  have step: "tags_loop d v grp (t # ts) acc = tags_loop d1 v grp ts (acc @ [tg])"
    using g by simp
  show ?case
    unfolding step using Cons.IH [of d1 "acc @ [tg]"] tg d1
    by (simp add: replicate_append_same)
qed

lemma py_split_not_Nil: "py_split s c \<noteq> []"
  by (induction s) (auto split: list.splits)

lemma py_split_length: "length (py_split s c) = Suc (count_list s c)"
proof (induction s)
  case Nil
  show ?case by simp
next
  case (Cons x xs)
  then show ?case using py_split_not_Nil [of xs c] by (auto split: list.splits)
qed

lemma py_split_no_sep: "n \<in> set (py_split s c) \<Longrightarrow> c \<notin> set n"
proof (induction s arbitrary: n)
  case Nil
  then show ?case by simp
next
  case (Cons x xs)
  show ?case
  proof (cases "x = c")
    case True
    with Cons show ?thesis by auto
  next
    case False
    obtain w ws where w: "py_split xs c = w # ws"
      using py_split_not_Nil [of xs c] by (cases "py_split xs c") auto
    with False Cons.prems have "n = x # w \<or> n \<in> set ws" by simp
    then show ?thesis
    proof
      assume "n = x # w"
      moreover have "c \<notin> set w" using Cons.IH [of w] w by simp
      ultimately show ?thesis using False by simp
    next
      assume "n \<in> set ws"
      then show ?thesis using Cons.IH [of n] w by simp
    qed
  qed
qed

lemma handle_tags_eq:
  assumes "v \<noteq> []"
  shows "fst (handle_tags d (Some v) grp)
           = TT_Tags (replicate (length (py_split v (CHR '',''))) \<lparr>tag_name = v, tag_group = grp\<rparr>) \<and>
         \<lparr>tag_name = v, tag_group = grp\<rparr> \<in> set (tag_rows (snd (handle_tags d (Some v) grp)))"
proof -
  let ?items = "py_split v (CHR '','')"
  have ne: "?items \<noteq> []" by (rule py_split_not_Nil)
  obtain ts d1 where l: "tags_loop d v grp ?items [] = (ts, d1)"
    by (cases "tags_loop d v grp ?items []")
  from tags_loop_eq [of d v grp ?items "[]"] l ne
  have "ts = replicate (length ?items) \<lparr>tag_name = v, tag_group = grp\<rparr>"
    and "\<lparr>tag_name = v, tag_group = grp\<rparr> \<in> set (tag_rows d1)"
    by simp_all
  with assms l show ?thesis by (simp add: handle_tags_def)
qed

lemma handle_tags_tables:
  "exchange_rates (snd (handle_tags d tt grp)) = exchange_rates d \<and>
   expense_rows (snd (handle_tags d tt grp)) = expense_rows d"
proof (cases tt)
  case None
  then show ?thesis by (simp add: handle_tags_def)
next
  case (Some s)
  show ?thesis
  proof (cases "s = []")
    case True
    with Some show ?thesis by (simp add: handle_tags_def)
  next
    case False
    obtain ts d1 where l: "tags_loop d s grp (py_split s (CHR '','')) [] = (ts, d1)"
      by (cases "tags_loop d s grp (py_split s (CHR '','')) []")
    from tags_loop_eq [of d s grp "py_split s (CHR '','')" "[]"] l
    have "exchange_rates d1 = exchange_rates d" "expense_rows d1 = expense_rows d" by simp_all
    with Some False l show ?thesis by (simp add: handle_tags_def)
  qed
qed

section \<open>What a successful decoding returns\<close>

lemma decode_Inr:
  assumes "decode_expense_params Decimal strptime today CURRENCY d (tok # rest) grp = Inr (data, d')"
  shows "\<exists>amount exchange_rate original_amount dd.
           get_amount_and_currency Decimal CURRENCY d tok = Inr (amount, exchange_rate, original_amount) \<and>
           \<not> value_missing ''dd'' rest \<and>
           \<not> value_missing ''tt'' (without_modifier ''dd'' rest) \<and>
           without_modifier ''tt'' (without_modifier ''dd'' rest) \<noteq> [] \<and>
           handle_date strptime today (modifier_value ''dd'' rest) = Inr dd \<and>
           data = \<lparr>data_amount = amount,
                   data_exchange_rate = exchange_rate,
                   data_original_amount = original_amount,
                   data_dd = dd,
                   data_tt = fst (handle_tags d (modifier_value ''tt'' (without_modifier ''dd'' rest)) grp),
                   data_description =
                     py_join '' '' (without_modifier ''tt'' (without_modifier ''dd'' rest))\<rparr> \<and>
           d' = snd (handle_tags d (modifier_value ''tt'' (without_modifier ''dd'' rest)) grp)"
  using assms unfolding decode_expense_params_eq
  by (auto split: sum.splits prod.splits if_splits)

text \<open>
  Claim C2. For every input of \<^verbatim>\<open>decode_expense_params\<close> that is decoded and whose \<^verbatim>\<open>tt\<close>
  value is a non-empty string \<open>v\<close> of \<open>k\<close> names separated by commas (\<open>k\<close> is the length of
  the split, one more than the number of commas), the list of tags has exactly \<open>k\<close>
  entries, and every entry is the tag that \<^verbatim>\<open>get_or_create\<close> returns for the name \<open>v\<close>, the
  whole value, in the group; with more than one name, \<open>v\<close> is none of the names of the
  split.
\<close>

theorem tags_named_by_whole_value:
  assumes "decode_expense_params Decimal strptime today CURRENCY d (tok # rest) grp = Inr (data, d')"
    and "modifier_value ''tt'' (without_modifier ''dd'' rest) = Some v"
    and "v \<noteq> []"
  shows "data_tt data
           = TT_Tags (replicate (length (py_split v (CHR '',''))) (fst (get_or_create_tag d v grp))) \<and>
         length (py_split v (CHR '','')) = Suc (count_list v (CHR '','')) \<and>
         fst (get_or_create_tag d v grp) = \<lparr>tag_name = v, tag_group = grp\<rparr> \<and>
         \<lparr>tag_name = v, tag_group = grp\<rparr> \<in> set (tag_rows d') \<and>
         (CHR '','' \<in> set v \<longrightarrow> v \<notin> set (py_split v (CHR '','')))"
proof -
  from decode_Inr [OF assms(1)] assms(2)
  have tt: "data_tt data = fst (handle_tags d (Some v) grp)"
    and d': "d' = snd (handle_tags d (Some v) grp)"
    by auto
  have "CHR '','' \<in> set v \<longrightarrow> v \<notin> set (py_split v (CHR '',''))"
    using py_split_no_sep [of v v "CHR '',''"] by auto
  then show ?thesis
    using handle_tags_eq [OF assms(3), of d grp] tt d' py_split_length [of v "CHR '',''"]
      get_or_create_tag_fst [of d v grp]
    by simp
qed

lemmas modifier_eval = modifier_value_def without_modifier_def value_missing_def

lemmas date_eval =
  handle_date_def py_strptime_def strptime_dmy_def code_points_def code_def strptime_matches_def
  match_d_def match_m_def match_y_def match_slash_def digit_in_def any_digit_def any_digit_val_def
  unicode_decimal_def decimal_zeros_def digit_val_def days_in_month_def is_leap_def

lemmas tags_eval = handle_tags_def get_or_create_tag_def Let_def

lemma amount_10:
  "get_amount_and_currency py_Decimal example_currency example_rates ''10''
     = Inr (Finite False 10 0, None, Finite False 10 0)"
proof -
  have n: "\<forall>(k, v)\<in>set example_currency.
             \<not> startswith ''10'' k \<and> \<not> startswith ''10'' v \<and>
             \<not> endswith ''10'' k \<and> \<not> endswith ''10'' v"
    by (simp add: example_currency_def startswith_def endswith_def)
  have c: "CHR '','' \<notin> set ''10''" by simp
  from Decimal_10 c n show ?thesis by (rule amount_plain [where Decimal = py_Decimal])
qed

lemma decode_tags_example:
  "decode_expense_params py_Decimal py_strptime example_today example_currency example_rates
     [''10'', ''tt'', ''a,b'', ''lunch''] 7
     = Inr (\<lparr>data_amount = Finite False 10 0,
             data_exchange_rate = None,
             data_original_amount = Finite False 10 0,
             data_dd = example_today,
             data_tt = TT_Tags [\<lparr>tag_name = ''a,b'', tag_group = 7\<rparr>, \<lparr>tag_name = ''a,b'', tag_group = 7\<rparr>],
             data_description = ''lunch''\<rparr>,
            example_rates\<lparr>tag_rows := [\<lparr>tag_name = ''a,b'', tag_group = 7\<rparr>]\<rparr>)"
  unfolding decode_expense_params_eq amount_10
  by (simp add: modifier_eval handle_date_def tags_eval example_rates_def)

lemma modifier_tags_example:
  "modifier_value ''tt'' (without_modifier ''dd'' [''tt'', ''a,b'', ''lunch'']) = Some ''a,b''"
  by (simp add: modifier_eval)

theorem tags_named_by_whole_value_witness:
  "decode_expense_params py_Decimal py_strptime example_today example_currency example_rates
     [''10'', ''tt'', ''a,b'', ''lunch''] 7
     = Inr (\<lparr>data_amount = Finite False 10 0,
             data_exchange_rate = None,
             data_original_amount = Finite False 10 0,
             data_dd = example_today,
             data_tt = TT_Tags [\<lparr>tag_name = ''a,b'', tag_group = 7\<rparr>, \<lparr>tag_name = ''a,b'', tag_group = 7\<rparr>],
             data_description = ''lunch''\<rparr>,
            example_rates\<lparr>tag_rows := [\<lparr>tag_name = ''a,b'', tag_group = 7\<rparr>]\<rparr>) \<and>
   modifier_value ''tt'' (without_modifier ''dd'' [''tt'', ''a,b'', ''lunch'']) = Some ''a,b'' \<and>
   length (py_split ''a,b'' (CHR '','')) = 2 \<and>
   ''a,b'' \<notin> set (py_split ''a,b'' (CHR '','')) \<and>
   \<lparr>tag_name = ''a,b'', tag_group = 7\<rparr>
     \<in> set (tag_rows (example_rates\<lparr>tag_rows := [\<lparr>tag_name = ''a,b'', tag_group = 7\<rparr>]\<rparr>))"
proof -
  have n: "''a,b'' \<noteq> []" by simp
  have c: "CHR '','' \<in> set ''a,b''" by simp
  have t: "\<lparr>tag_name = ''a,b'', tag_group = 7\<rparr>
             \<in> set (tag_rows (example_rates\<lparr>tag_rows := [\<lparr>tag_name = ''a,b'', tag_group = 7\<rparr>]\<rparr>)) \<and>
           (CHR '','' \<in> set ''a,b'' \<longrightarrow> ''a,b'' \<notin> set (py_split ''a,b'' (CHR '','')))"
    using tags_named_by_whole_value [OF decode_tags_example modifier_tags_example n]
    by (elim conjE) (intro conjI)
  have l: "length (py_split ''a,b'' (CHR '','')) = 2" by simp
  from t c have s: "''a,b'' \<notin> set (py_split ''a,b'' (CHR '',''))" by (elim conjE) (erule (1) mp)
  from t have r: "\<lparr>tag_name = ''a,b'', tag_group = 7\<rparr>
             \<in> set (tag_rows (example_rates\<lparr>tag_rows := [\<lparr>tag_name = ''a,b'', tag_group = 7\<rparr>]\<rparr>))"
    by (rule conjunct1)
  show ?thesis
    by (intro conjI) (rule decode_tags_example, rule modifier_tags_example, rule l, rule s, rule r)
qed

section \<open>Which tokens a modifier takes\<close>






section \<open>The date\<close>

lemma decode_after_extraction:
  assumes "get_amount_and_currency Decimal CURRENCY d tok = Inr (amount, exchange_rate, original_amount)"
    and "\<not> value_missing ''dd'' rest"
    and "\<not> value_missing ''tt'' (without_modifier ''dd'' rest)"
    and "without_modifier ''tt'' (without_modifier ''dd'' rest) \<noteq> []"
  shows "decode_expense_params Decimal strptime today CURRENCY d (tok # rest) grp =
     (case handle_date strptime today (modifier_value ''dd'' rest) of
        Inl e \<Rightarrow> Inl e
      | Inr dd \<Rightarrow>
          Inr (\<lparr>data_amount = amount,
                data_exchange_rate = exchange_rate,
                data_original_amount = original_amount,
                data_dd = dd,
                data_tt = fst (handle_tags d (modifier_value ''tt'' (without_modifier ''dd'' rest)) grp),
                data_description =
                  py_join '' '' (without_modifier ''tt'' (without_modifier ''dd'' rest))\<rparr>,
               snd (handle_tags d (modifier_value ''tt'' (without_modifier ''dd'' rest)) grp)))"
  unfolding decode_expense_params_eq using assms
  by (simp split: sum.splits prod.splits)

lemma strptime_example:
  "py_strptime ''28/01/99'' ''%d/%m/%y'' = Some \<lparr>year = 1999, month = 1, day = 28\<rparr>"
  by (simp add: date_eval)

text \<open>
  Claim C7, as amended. For every input whose amount is valid and that keeps a description
  after the modifiers are taken out: a non-empty \<^verbatim>\<open>dd\<close> value is given to \<^verbatim>\<open>strptime\<close> with
  the format \<^verbatim>\<open>%d/%m/%y\<close> (day, month, two-digit year) and the date read is the date of
  the data, so that \<^verbatim>\<open>28/01/99\<close> gives the 28th of January 1999; a non-empty value on
  which \<^verbatim>\<open>strptime\<close> raises \<^verbatim>\<open>ValueError\<close> raises \<open>ParameterError\<close> with the message that
  shows the format; where \<^verbatim>\<open>dd\<close> is absent, and also where its value is the empty string,
  the date is the current date. This holds for all functions \<open>Decimal\<close> and \<open>strptime\<close>.
\<close>

theorem date_resolution:
  assumes "get_amount_and_currency Decimal CURRENCY d tok = Inr r"
    and "\<not> value_missing ''dd'' rest"
    and "\<not> value_missing ''tt'' (without_modifier ''dd'' rest)"
    and "without_modifier ''tt'' (without_modifier ''dd'' rest) \<noteq> []"
  shows "(\<forall>v dt. modifier_value ''dd'' rest = Some v \<and> v \<noteq> [] \<and> strptime v ''%d/%m/%y'' = Some dt \<longrightarrow>
            (\<exists>data d'. decode_expense_params Decimal strptime today CURRENCY d (tok # rest) grp = Inr (data, d') \<and>
                        data_dd data = dt)) \<and>
         (\<forall>v. modifier_value ''dd'' rest = Some v \<and> v \<noteq> [] \<and> strptime v ''%d/%m/%y'' = None \<longrightarrow>
            decode_expense_params Decimal strptime today CURRENCY d (tok # rest) grp
              = Inl (ParameterError date_format_text)) \<and>
         (''dd'' \<notin> set rest \<or> modifier_value ''dd'' rest = Some [] \<longrightarrow>
            (\<exists>data d'. decode_expense_params Decimal strptime today CURRENCY d (tok # rest) grp = Inr (data, d') \<and>
                        data_dd data = today)) \<and>
         (rest = [''dd'', ''28/01/99'', ''lunch''] \<and>
          strptime ''28/01/99'' ''%d/%m/%y'' = Some \<lparr>year = 1999, month = 1, day = 28\<rparr> \<longrightarrow>
            (\<exists>data d'. decode_expense_params Decimal strptime today CURRENCY d (tok # rest) grp = Inr (data, d') \<and>
                        data_dd data = \<lparr>year = 1999, month = 1, day = 28\<rparr>)) \<and>
         contains date_format_text ''dd/mm/yy''"
proof -
  obtain amount exchange_rate original_amount where r: "r = (amount, exchange_rate, original_amount)"
    by (cases r)
  have eq: "decode_expense_params Decimal strptime today CURRENCY d (tok # rest) grp =
     (case handle_date strptime today (modifier_value ''dd'' rest) of
        Inl e \<Rightarrow> Inl e
      | Inr dd \<Rightarrow>
          Inr (\<lparr>data_amount = amount,
                data_exchange_rate = exchange_rate,
                data_original_amount = original_amount,
                data_dd = dd,
                data_tt = fst (handle_tags d (modifier_value ''tt'' (without_modifier ''dd'' rest)) grp),
                data_description =
                  py_join '' '' (without_modifier ''tt'' (without_modifier ''dd'' rest))\<rparr>,
               snd (handle_tags d (modifier_value ''tt'' (without_modifier ''dd'' rest)) grp)))"
    using assms unfolding r by (rule decode_after_extraction)
  have absent: "''dd'' \<notin> set rest \<Longrightarrow> modifier_value ''dd'' rest = None"
    by (simp add: modifier_value_def py_index_None [symmetric])
  have hint: "date_format_text =
      (''Luego del par'' @ [CHR 0xC3, CHR 0xA1] @ ''metro '' @ [CHR 0x22] @ ''dd'' @ [CHR 0x22] @
       '' necesito que ingreses la fecha del gasto que est'' @ [CHR 0xC3, CHR 0xA1] @
       ''s cargando con formato '' @ [CHR 0x22]) @ ''dd/mm/yy'' @
      ([CHR 0x22] @ '' (Por ejemplo 28/01/99).'')"
    by (simp add: date_format_text_def)
  show ?thesis
  proof (intro conjI allI impI)
    fix v dt
    assume "modifier_value ''dd'' rest = Some v \<and> v \<noteq> [] \<and> strptime v ''%d/%m/%y'' = Some dt"
    then show "\<exists>data d'. decode_expense_params Decimal strptime today CURRENCY d (tok # rest) grp = Inr (data, d') \<and>
                        data_dd data = dt"
      unfolding eq by (simp add: handle_date_def)
  next
    fix v
    assume "modifier_value ''dd'' rest = Some v \<and> v \<noteq> [] \<and> strptime v ''%d/%m/%y'' = None"
    then show "decode_expense_params Decimal strptime today CURRENCY d (tok # rest) grp
              = Inl (ParameterError date_format_text)"
      unfolding eq by (simp add: handle_date_def)
  next
    assume "''dd'' \<notin> set rest \<or> modifier_value ''dd'' rest = Some []"
    then have "handle_date strptime today (modifier_value ''dd'' rest) = Inr today"
      using absent by (auto simp: handle_date_def)
    then show "\<exists>data d'. decode_expense_params Decimal strptime today CURRENCY d (tok # rest) grp = Inr (data, d') \<and>
                        data_dd data = today"
      unfolding eq by simp
  next
    assume a: "rest = [''dd'', ''28/01/99'', ''lunch''] \<and>
          strptime ''28/01/99'' ''%d/%m/%y'' = Some \<lparr>year = 1999, month = 1, day = 28\<rparr>"
    then have "modifier_value ''dd'' rest = Some ''28/01/99''"
      by (simp add: modifier_value_def)
    with a show "\<exists>data d'. decode_expense_params Decimal strptime today CURRENCY d (tok # rest) grp = Inr (data, d') \<and>
                        data_dd data = \<lparr>year = 1999, month = 1, day = 28\<rparr>"
      unfolding eq by (simp add: handle_date_def)
  next
    show "contains date_format_text ''dd/mm/yy''" using hint by (rule contains_intro)
  qed
qed

lemma decode_date_example:
  "decode_expense_params py_Decimal py_strptime example_today example_currency example_rates
     [''10'', ''dd'', ''28/01/99'', ''lunch''] 7
     = Inr (\<lparr>data_amount = Finite False 10 0,
             data_exchange_rate = None,
             data_original_amount = Finite False 10 0,
             data_dd = \<lparr>year = 1999, month = 1, day = 28\<rparr>,
             data_tt = TT_None,
             data_description = ''lunch''\<rparr>,
            example_rates)"
  unfolding decode_expense_params_eq amount_10
  by (simp add: modifier_eval date_eval tags_eval)

theorem date_resolution_witness:
  "get_amount_and_currency py_Decimal example_currency example_rates ''10''
     = Inr (Finite False 10 0, None, Finite False 10 0) \<and>
   \<not> value_missing ''dd'' [''dd'', ''28/01/99'', ''lunch''] \<and>
   \<not> value_missing ''tt'' (without_modifier ''dd'' [''dd'', ''28/01/99'', ''lunch'']) \<and>
   without_modifier ''tt'' (without_modifier ''dd'' [''dd'', ''28/01/99'', ''lunch'']) \<noteq> [] \<and>
   modifier_value ''dd'' [''dd'', ''28/01/99'', ''lunch''] = Some ''28/01/99'' \<and>
   py_strptime ''28/01/99'' ''%d/%m/%y'' = Some \<lparr>year = 1999, month = 1, day = 28\<rparr> \<and>
   (\<exists>data d'. decode_expense_params py_Decimal py_strptime example_today example_currency example_rates
                 (''10'' # [''dd'', ''28/01/99'', ''lunch'']) 7 = Inr (data, d') \<and>
               data_dd data = \<lparr>year = 1999, month = 1, day = 28\<rparr>)"
proof -
  let ?rest = "[''dd'', ''28/01/99'', ''lunch'']"
  have a: "\<not> value_missing ''dd'' ?rest" by (simp add: modifier_eval)
  have b: "\<not> value_missing ''tt'' (without_modifier ''dd'' ?rest)" by (simp add: modifier_eval)
  have c: "without_modifier ''tt'' (without_modifier ''dd'' ?rest) \<noteq> []" by (simp add: modifier_eval)
  have v: "modifier_value ''dd'' ?rest = Some ''28/01/99''" by (simp add: modifier_eval)
  have n: "''28/01/99'' \<noteq> []" by simp
  from date_resolution [OF amount_10 a b c, where strptime = py_strptime and today = example_today
      and grp = 7]
  have "\<forall>v dt. modifier_value ''dd'' ?rest = Some v \<and> v \<noteq> [] \<and> py_strptime v ''%d/%m/%y'' = Some dt \<longrightarrow>
            (\<exists>data d'. decode_expense_params py_Decimal py_strptime example_today example_currency example_rates
                          (''10'' # ?rest) 7 = Inr (data, d') \<and> data_dd data = dt)"
    by (rule conjunct1)
  from this [rule_format, OF conjI [OF v conjI [OF n strptime_example]]]
  have e: "\<exists>data d'. decode_expense_params py_Decimal py_strptime example_today example_currency example_rates
                          (''10'' # ?rest) 7 = Inr (data, d') \<and>
                      data_dd data = \<lparr>year = 1999, month = 1, day = 28\<rparr>" .
  show ?thesis
    by (intro conjI) (rule amount_10, rule a, rule b, rule c, rule v, rule strptime_example, rule e)
qed

text \<open>
  The claim as it stands fails where the value of \<^verbatim>\<open>dd\<close> is the empty string: the value is
  there and is no date, yet nothing is raised and the date is the current date. And where
  no description is left, a value that is no date raises the error of the missing
  description, not the one that shows the format.
\<close>

theorem empty_date_counterexample:
  "decode_expense_params py_Decimal py_strptime example_today example_currency example_rates
     [''10'', ''dd'', [], ''lunch''] 7
     = Inr (\<lparr>data_amount = Finite False 10 0,
             data_exchange_rate = None,
             data_original_amount = Finite False 10 0,
             data_dd = example_today,
             data_tt = TT_None,
             data_description = ''lunch''\<rparr>,
            example_rates) \<and>
   modifier_value ''dd'' [''dd'', [], ''lunch''] = Some [] \<and>
   py_strptime [] ''%d/%m/%y'' = None \<and>
   decode_expense_params py_Decimal py_strptime example_today example_currency example_rates [''10'', ''dd'', ''xx''] 7
     = Inl (ParameterError no_description_text) \<and>
   modifier_value ''dd'' [''dd'', ''xx''] = Some ''xx'' \<and>
   py_strptime ''xx'' ''%d/%m/%y'' = None \<and>
   no_description_text \<noteq> date_format_text"
proof (intro conjI)
  show "decode_expense_params py_Decimal py_strptime example_today example_currency example_rates
     [''10'', ''dd'', [], ''lunch''] 7
     = Inr (\<lparr>data_amount = Finite False 10 0,
             data_exchange_rate = None,
             data_original_amount = Finite False 10 0,
             data_dd = example_today,
             data_tt = TT_None,
             data_description = ''lunch''\<rparr>,
            example_rates)"
    unfolding decode_expense_params_eq amount_10
    by (simp add: modifier_eval date_eval tags_eval)
  show "modifier_value ''dd'' [''dd'', [], ''lunch''] = Some []" by (simp add: modifier_eval)
  show "py_strptime [] ''%d/%m/%y'' = None" by (simp add: date_eval)
  show "decode_expense_params py_Decimal py_strptime example_today example_currency example_rates [''10'', ''dd'', ''xx''] 7
     = Inl (ParameterError no_description_text)"
    unfolding decode_expense_params_eq amount_10 by (simp add: modifier_eval)
  show "modifier_value ''dd'' [''dd'', ''xx''] = Some ''xx''" by (simp add: modifier_eval)
  show "py_strptime ''xx'' ''%d/%m/%y'' = None" by (simp add: date_eval)
  show "no_description_text \<noteq> date_format_text"
    by (simp add: no_description_text_def date_format_text_def)
qed

text \<open>
  With the library functions of CPython, a digit of another script is read where the
  format takes any digit: the Arabic-Indic digit two as the second digit of the day.
\<close>

lemma date_in_another_script:
  "decode_expense_params py_Decimal py_strptime example_today example_currency example_rates
     [''10'', ''dd'', [CHR ''1'', CHR 0xD9, CHR 0xA2] @ ''/01/99'', ''lunch''] 7
     = Inr (\<lparr>data_amount = Finite False 10 0,
             data_exchange_rate = None,
             data_original_amount = Finite False 10 0,
             data_dd = \<lparr>year = 1999, month = 1, day = 12\<rparr>,
             data_tt = TT_None,
             data_description = ''lunch''\<rparr>,
            example_rates)"
  unfolding decode_expense_params_eq amount_10
  by (simp add: modifier_eval date_eval tags_eval)

section \<open>When \<^verbatim>\<open>decode_expense_params\<close> raises \<open>ParameterError\<close>\<close>

lemma dec_fix_Inl: "dec_fix x = Inl e \<Longrightarrow> e = Overflow"
  by (cases x) (auto simp: Let_def split: if_splits)

lemma dec_mul_Inl: "dec_mul a b = Inl e \<Longrightarrow> e = InvalidOperation \<or> e = Overflow"
  by (auto simp: dec_mul_def Let_def check_nans_def dest: dec_fix_Inl split: if_splits option.splits)

lemma amount_error_iff:
  "is_ParameterError (get_amount_and_currency Decimal CURRENCY d tok) \<longleftrightarrow>
   Decimal (py_replace (amount_without_currency CURRENCY tok) '','' ''.'') = None"
proof (cases "Decimal (py_replace (amount_without_currency CURRENCY tok) '','' ''.'')")
  case None
  then show ?thesis by (simp add: get_amount_and_currency_def)
next
  case (Some a)
  have "\<not> is_ParameterError (get_amount_and_currency Decimal CURRENCY d tok)"
  proof
    assume "is_ParameterError (get_amount_and_currency Decimal CURRENCY d tok)"
    then obtain t where t: "get_amount_and_currency Decimal CURRENCY d tok = Inl (ParameterError t)"
      by (cases "get_amount_and_currency Decimal CURRENCY d tok" rule: is_ParameterError.cases) auto
    then have "\<exists>r::exchange_rate. dec_mul a (rate r) = Inl (ParameterError t)"
      using Some by (auto simp: get_amount_and_currency_def Let_def split: option.splits sum.splits)
    then show False using dec_mul_Inl by fastforce
  qed
  with Some show ?thesis by simp
qed

lemma handle_date_error_iff:
  "is_ParameterError (handle_date strptime today dd) \<longleftrightarrow>
   (\<exists>v. dd = Some v \<and> v \<noteq> [] \<and> strptime v ''%d/%m/%y'' = None)"
  by (auto simp: handle_date_def split: option.splits)

lemma handle_date_cases:
  "handle_date strptime today dd = Inl e \<Longrightarrow> e = ParameterError date_format_text"
  by (auto simp: handle_date_def split: option.splits if_splits)

text \<open>
  Claim C3, as amended. Where the conversion of the amount raises no exception of the
  decimal module, \<^verbatim>\<open>decode_expense_params\<close> raises \<open>ParameterError\<close> if and only if the token
  sequence is empty, or the amount token is no valid decimal once the currency is taken
  out (\<^verbatim>\<open>Decimal\<close> raises \<^verbatim>\<open>InvalidOperation\<close>), or the first occurrence of \<^verbatim>\<open>dd\<close> is the last
  of the tokens after the amount, or the first occurrence of \<^verbatim>\<open>tt\<close> is the last of the
  tokens the \<^verbatim>\<open>dd\<close> step leaves, or no token is left for the description, or the \<^verbatim>\<open>dd\<close>
  value is non-empty and \<^verbatim>\<open>strptime\<close> raises \<^verbatim>\<open>ValueError\<close> on it with the format
  day/month/year; in all other cases it returns the data. This holds for all functions
  \<open>Decimal\<close> and \<open>strptime\<close>.
\<close>

theorem parameter_error_iff:
  assumes "\<not> conversion_raises Decimal CURRENCY d params"
  shows "(is_ParameterError (decode_expense_params Decimal strptime today CURRENCY d params grp) \<longleftrightarrow>
            params = [] \<or>
            (\<exists>tok rest. params = tok # rest \<and>
               (Decimal (py_replace (amount_without_currency CURRENCY tok) '','' ''.'') = None \<or>
                value_missing ''dd'' rest \<or>
                value_missing ''tt'' (without_modifier ''dd'' rest) \<or>
                without_modifier ''tt'' (without_modifier ''dd'' rest) = [] \<or>
                (\<exists>v. modifier_value ''dd'' rest = Some v \<and> v \<noteq> [] \<and> strptime v ''%d/%m/%y'' = None)))) \<and>
         (\<not> is_ParameterError (decode_expense_params Decimal strptime today CURRENCY d params grp) \<longrightarrow>
            (\<exists>data d'. decode_expense_params Decimal strptime today CURRENCY d params grp = Inr (data, d')))"
proof (cases params)
  case Nil
  then show ?thesis by (simp add: decode_expense_params_def)
next
  case (Cons tok rest)
  let ?bad = "Decimal (py_replace (amount_without_currency CURRENCY tok) '','' ''.'') = None"
  let ?cond = "value_missing ''dd'' rest \<or>
                value_missing ''tt'' (without_modifier ''dd'' rest) \<or>
                without_modifier ''tt'' (without_modifier ''dd'' rest) = [] \<or>
                (\<exists>v. modifier_value ''dd'' rest = Some v \<and> v \<noteq> [] \<and> strptime v ''%d/%m/%y'' = None)"
  show ?thesis
  proof (cases "get_amount_and_currency Decimal CURRENCY d tok")
    case (Inl e)
    with assms Cons obtain t where t: "e = ParameterError t"
      by (cases e) (auto simp: conversion_raises_def)
    have dec: "decode_expense_params Decimal strptime today CURRENCY d params grp = Inl (ParameterError t)"
      unfolding Cons decode_expense_params_eq Inl t by simp
    have "is_ParameterError (get_amount_and_currency Decimal CURRENCY d tok)" unfolding Inl t by simp
    then have ?bad by (simp add: amount_error_iff)
    with dec Cons show ?thesis by simp
  next
    case (Inr r)
    obtain amount exchange_rate original_amount where r: "r = (amount, exchange_rate, original_amount)"
      by (cases r)
    have "\<not> is_ParameterError (get_amount_and_currency Decimal CURRENCY d tok)" unfolding Inr by simp
    then have good: "\<not> ?bad" by (simp add: amount_error_iff)
    show ?thesis
    proof (cases "value_missing ''dd'' rest \<or>
                value_missing ''tt'' (without_modifier ''dd'' rest) \<or>
                without_modifier ''tt'' (without_modifier ''dd'' rest) = []")
      case True
      then have "is_ParameterError (decode_expense_params Decimal strptime today CURRENCY d params grp)"
        unfolding Cons decode_expense_params_eq Inr r by auto
      with True Cons show ?thesis by auto
    next
      case False
      then have eq: "decode_expense_params Decimal strptime today CURRENCY d (tok # rest) grp =
         (case handle_date strptime today (modifier_value ''dd'' rest) of
            Inl e \<Rightarrow> Inl e
          | Inr dd \<Rightarrow>
              Inr (\<lparr>data_amount = amount,
                    data_exchange_rate = exchange_rate,
                    data_original_amount = original_amount,
                    data_dd = dd,
                    data_tt = fst (handle_tags d (modifier_value ''tt'' (without_modifier ''dd'' rest)) grp),
                    data_description =
                      py_join '' '' (without_modifier ''tt'' (without_modifier ''dd'' rest))\<rparr>,
                   snd (handle_tags d (modifier_value ''tt'' (without_modifier ''dd'' rest)) grp)))"
        using Inr r decode_after_extraction by simp
      show ?thesis
      proof (cases "handle_date strptime today (modifier_value ''dd'' rest)")
        case (Inl e)
        then have e: "e = ParameterError date_format_text" by (rule handle_date_cases)
        have "is_ParameterError (handle_date strptime today (modifier_value ''dd'' rest))"
          unfolding Inl e by simp
        then have "\<exists>v. modifier_value ''dd'' rest = Some v \<and> v \<noteq> [] \<and> strptime v ''%d/%m/%y'' = None"
          by (simp add: handle_date_error_iff)
        moreover have "is_ParameterError (decode_expense_params Decimal strptime today CURRENCY d params grp)"
          unfolding Cons eq Inl e by simp
        ultimately show ?thesis using Cons by auto
      next
        case (Inr dd)
        have "\<not> is_ParameterError (handle_date strptime today (modifier_value ''dd'' rest))"
          unfolding Inr by simp
        then have nd: "\<not> (\<exists>v. modifier_value ''dd'' rest = Some v \<and> v \<noteq> [] \<and> strptime v ''%d/%m/%y'' = None)"
          by (simp add: handle_date_error_iff)
        have ok: "\<exists>data d'. decode_expense_params Decimal strptime today CURRENCY d params grp = Inr (data, d')"
          unfolding Cons eq Inr by simp
        then have "\<not> is_ParameterError (decode_expense_params Decimal strptime today CURRENCY d params grp)"
          by auto
        with ok nd good False Cons show ?thesis by auto
      qed
    qed
  qed
qed

theorem parameter_error_iff_witness:
  "\<not> conversion_raises py_Decimal example_currency example_rates [''10'', ''lunch'', ''dd''] \<and>
   value_missing ''dd'' [''lunch'', ''dd''] \<and>
   is_ParameterError
     (decode_expense_params py_Decimal py_strptime example_today example_currency example_rates [''10'', ''lunch'', ''dd''] 7)"
proof -
  have c: "\<not> conversion_raises py_Decimal example_currency example_rates [''10'', ''lunch'', ''dd'']"
    by (simp add: conversion_raises_def amount_10)
  have m: "value_missing ''dd'' [''lunch'', ''dd'']" by (simp add: modifier_eval)
  have "is_ParameterError
          (decode_expense_params py_Decimal py_strptime example_today example_currency example_rates
             [''10'', ''lunch'', ''dd''] 7) \<longleftrightarrow>
        [''10'', ''lunch'', ''dd''] = [] \<or>
        (\<exists>tok rest. [''10'', ''lunch'', ''dd''] = tok # rest \<and>
           (py_Decimal (py_replace (amount_without_currency example_currency tok) '','' ''.'') = None \<or>
            value_missing ''dd'' rest \<or>
            value_missing ''tt'' (without_modifier ''dd'' rest) \<or>
            without_modifier ''tt'' (without_modifier ''dd'' rest) = [] \<or>
            (\<exists>v. modifier_value ''dd'' rest = Some v \<and> v \<noteq> [] \<and> py_strptime v ''%d/%m/%y'' = None)))"
    using parameter_error_iff [OF c, where strptime = py_strptime and today = example_today and grp = 7]
    by (rule conjunct1)
  moreover have "\<exists>tok rest. [''10'', ''lunch'', ''dd''] = tok # rest \<and>
           (py_Decimal (py_replace (amount_without_currency example_currency tok) '','' ''.'') = None \<or>
            value_missing ''dd'' rest \<or>
            value_missing ''tt'' (without_modifier ''dd'' rest) \<or>
            without_modifier ''tt'' (without_modifier ''dd'' rest) = [] \<or>
            (\<exists>v. modifier_value ''dd'' rest = Some v \<and> v \<noteq> [] \<and> py_strptime v ''%d/%m/%y'' = None))"
    using m by (intro exI [of _ "''10''"] exI [of _ "[''lunch'', ''dd'']"]) simp
  ultimately have e: "is_ParameterError
     (decode_expense_params py_Decimal py_strptime example_today example_currency example_rates [''10'', ''lunch'', ''dd''] 7)"
    by (rule_tac iffD2) (assumption, erule disjI2)
  show ?thesis by (intro conjI) (rule c, rule m, rule e)
qed

text \<open>
  The claim as it stands fails where a keyword stands twice: in the tokens below the last
  token is \<^verbatim>\<open>tt\<close> and nothing follows it, yet the data is returned, since only the first
  \<^verbatim>\<open>tt\<close> is looked at and the last one is part of the description.
\<close>

theorem last_token_keyword_counterexample:
  "decode_expense_params py_Decimal py_strptime example_today example_currency example_rates
     [''10'', ''tt'', ''a'', ''lunch'', ''tt''] 7
     = Inr (\<lparr>data_amount = Finite False 10 0,
             data_exchange_rate = None,
             data_original_amount = Finite False 10 0,
             data_dd = example_today,
             data_tt = TT_Tags [\<lparr>tag_name = ''a'', tag_group = 7\<rparr>],
             data_description = ''lunch tt''\<rparr>,
            example_rates\<lparr>tag_rows := [\<lparr>tag_name = ''a'', tag_group = 7\<rparr>]\<rparr>) \<and>
   last [''10'', ''tt'', ''a'', ''lunch'', ''tt''] = ''tt''"
proof (intro conjI)
  show "decode_expense_params py_Decimal py_strptime example_today example_currency example_rates
     [''10'', ''tt'', ''a'', ''lunch'', ''tt''] 7
     = Inr (\<lparr>data_amount = Finite False 10 0,
             data_exchange_rate = None,
             data_original_amount = Finite False 10 0,
             data_dd = example_today,
             data_tt = TT_Tags [\<lparr>tag_name = ''a'', tag_group = 7\<rparr>],
             data_description = ''lunch tt''\<rparr>,
            example_rates\<lparr>tag_rows := [\<lparr>tag_name = ''a'', tag_group = 7\<rparr>]\<rparr>)"
    unfolding decode_expense_params_eq amount_10
    by (simp add: modifier_eval date_eval tags_eval example_rates_def)
  show "last [''10'', ''tt'', ''a'', ''lunch'', ''tt''] = ''tt''" by simp
qed

text \<open>
  The conversion can raise: a signalling NaN is a valid decimal, and its product with a
  rate raises \<^verbatim>\<open>InvalidOperation\<close>, which is no \<open>ParameterError\<close> and is not caught.
\<close>

lemma conversion_raises_example:
  "py_Decimal ''sNaN'' = Some (SNaN False 0) \<and>
   decode_expense_params py_Decimal py_strptime example_today example_currency example_rates [''sNaNu'', ''lunch''] 7
     = Inl InvalidOperation"
proof (intro conjI)
  show "py_Decimal ''sNaN'' = Some (SNaN False 0)" by (simp add: decimal_eval)
  have f: "find_currency example_currency ''sNaNu'' = Some (''usd'', ''u'')"
    by (simp add: find_currency_def has_currency_def startswith_def endswith_def example_currency_def)
  have w: "amount_without_currency example_currency ''sNaNu'' = ''sNaN''"
    unfolding amount_without_currency_def f
    by (simp add: py_replace_def replace_scan.simps startswith_def)
  have r: "last_exchange_rate example_rates ''usd'' = Some example_rate_35"
    by (simp add: last_exchange_rate_def example_rates_def example_rate_35_def example_rate_30_def)
  have d: "py_Decimal (py_replace ''sNaN'' '','' ''.'') = Some (SNaN False 0)"
    by (simp add: py_replace_absent decimal_eval)
  have "get_amount_and_currency py_Decimal example_currency example_rates ''sNaNu'' = Inl InvalidOperation"
    unfolding get_amount_and_currency_def w f
    by (simp add: r d dec_mul_def check_nans_def)
  then show "decode_expense_params py_Decimal py_strptime example_today example_currency example_rates [''sNaNu'', ''lunch''] 7
     = Inl InvalidOperation"
    unfolding decode_expense_params_eq by simp
qed

section \<open>The expense that \<^verbatim>\<open>new_expense\<close> stores\<close>

lemma amount_Inr:
  assumes "get_amount_and_currency Decimal CURRENCY d tok = Inr (amount, exchange_rate, original_amount)"
  shows "(exchange_rate = None \<longrightarrow> amount = original_amount) \<and>
         (\<forall>r. exchange_rate = Some r \<longrightarrow>
            dec_mul original_amount (rate r) = Inr amount \<and>
            (\<exists>val. (currency r, val) \<in> set CURRENCY))"
proof (intro conjI allI impI)
  assume "exchange_rate = None"
  with assms show "amount = original_amount"
    by (auto simp: get_amount_and_currency_def Let_def split: option.splits sum.splits)
next
  fix r assume r: "exchange_rate = Some r"
  with assms show "dec_mul original_amount (rate r) = Inr amount"
    by (auto simp: get_amount_and_currency_def Let_def split: option.splits sum.splits)
  from assms r obtain key val where f: "find_currency CURRENCY tok = Some (key, val)"
    and l: "last_exchange_rate d key = Some r"
    by (auto simp: get_amount_and_currency_def Let_def split: option.splits sum.splits)
  from l have "currency r = key" by (rule last_exchange_rate_currency)
  with find_currency_Some(1) [OF f] show "\<exists>val. (currency r, val) \<in> set CURRENCY" by auto
qed

lemma currency_name_found:
  "(k, v) \<in> set CURRENCY \<Longrightarrow> \<exists>name. currency_name CURRENCY k = Inr name"
proof -
  assume "(k, v) \<in> set CURRENCY"
  then have "k \<in> fst ` set CURRENCY" by force
  then have "map_of CURRENCY k \<noteq> None" by (simp add: map_of_eq_None_iff)
  then show ?thesis by (auto simp: currency_name_def)
qed

text \<open>
  The two fields of the original currency are set together: every expense that
  \<^verbatim>\<open>new_expense\<close> builds and stores has its original currency and its original amount both
  set, exactly when an exchange rate came out of the parsing, or both absent; and its
  amount is the amount that the parsing returns, the product of the original amount and
  the rate where there is an exchange rate, the number as written otherwise.
\<close>

lemma stored_expense_fields:
  assumes "decode_expense_params Decimal strptime today CURRENCY d params grp = Inr (data, d')"
  shows "(\<exists>text. new_expense Decimal strptime str_expense today CURRENCY d params usr grp
                   = Inr (text, d'\<lparr>expense_rows := expense_rows d @ [build_expense data usr grp]\<rparr>)) \<and>
         (expense_original_currency (build_expense data usr grp) \<noteq> None
            \<longleftrightarrow> data_exchange_rate data \<noteq> None) \<and>
         (expense_original_amount (build_expense data usr grp) \<noteq> None
            \<longleftrightarrow> data_exchange_rate data \<noteq> None) \<and>
         expense_amount (build_expense data usr grp) = data_amount data \<and>
         (data_exchange_rate data = None \<longrightarrow>
            expense_amount (build_expense data usr grp) = data_original_amount data) \<and>
         (\<forall>r. data_exchange_rate data = Some r \<longrightarrow>
            expense_original_currency (build_expense data usr grp) = Some (currency r) \<and>
            expense_original_amount (build_expense data usr grp) = Some (data_original_amount data) \<and>
            dec_mul (data_original_amount data) (rate r)
              = Inr (expense_amount (build_expense data usr grp)))"
proof -
  obtain tok rest where p: "params = tok # rest"
    using assms by (cases params) (auto simp: decode_expense_params_def)
  from decode_Inr [OF assms [unfolded p]]
  obtain amount exchange_rate original_amount where
    a: "get_amount_and_currency Decimal CURRENCY d tok = Inr (amount, exchange_rate, original_amount)"
    and da: "data_amount data = amount" and de: "data_exchange_rate data = exchange_rate"
    and dor: "data_original_amount data = original_amount"
    and d': "d' = snd (handle_tags d (modifier_value ''tt'' (without_modifier ''dd'' rest)) grp)"
    by auto
  have rows: "expense_rows d' = expense_rows d" unfolding d' using handle_tags_tables by simp
  have fields:
    "expense_amount (build_expense data usr grp) = data_amount data"
    "expense_original_currency (build_expense data usr grp)
       = (case data_exchange_rate data of None \<Rightarrow> None | Some r \<Rightarrow> Some (currency r))"
    "expense_original_amount (build_expense data usr grp)
       = (case data_exchange_rate data of None \<Rightarrow> None | Some r \<Rightarrow> Some (data_original_amount data))"
    by (simp_all add: build_expense_def Let_def split: option.splits tt_value.splits)
  have new: "\<exists>text. new_expense Decimal strptime str_expense today CURRENCY d params usr grp
                   = Inr (text, d'\<lparr>expense_rows := expense_rows d @ [build_expense data usr grp]\<rparr>)"
  proof (cases exchange_rate)
    case None
    with assms de rows show ?thesis by (simp add: new_expense_def Let_def)
  next
    case (Some r)
    with amount_Inr [OF a] obtain val where "(currency r, val) \<in> set CURRENCY" by auto
    then obtain name where "currency_name CURRENCY (currency r) = Inr name"
      using currency_name_found by blast
    with assms de rows Some show ?thesis by (simp add: new_expense_def Let_def)
  qed
  show ?thesis
  proof (intro conjI allI impI)
    show "\<exists>text. new_expense Decimal strptime str_expense today CURRENCY d params usr grp
                   = Inr (text, d'\<lparr>expense_rows := expense_rows d @ [build_expense data usr grp]\<rparr>)"
      by (rule new)
    show "expense_original_currency (build_expense data usr grp) \<noteq> None
            \<longleftrightarrow> data_exchange_rate data \<noteq> None"
      unfolding fields by (simp split: option.splits)
    show "expense_original_amount (build_expense data usr grp) \<noteq> None
            \<longleftrightarrow> data_exchange_rate data \<noteq> None"
      unfolding fields by (simp split: option.splits)
    show "expense_amount (build_expense data usr grp) = data_amount data"
      by (rule fields(1))
  next
    assume "data_exchange_rate data = None"
    with amount_Inr [OF a] de da dor
    show "expense_amount (build_expense data usr grp) = data_original_amount data"
      unfolding fields by simp
  next
    fix r assume r: "data_exchange_rate data = Some r"
    show "expense_original_currency (build_expense data usr grp) = Some (currency r)"
      unfolding fields r by simp
    show "expense_original_amount (build_expense data usr grp) = Some (data_original_amount data)"
      unfolding fields r by simp
    from amount_Inr [OF a] r de da dor
    show "dec_mul (data_original_amount data) (rate r)
              = Inr (expense_amount (build_expense data usr grp))"
      unfolding fields by simp
  qed
qed

section \<open>A currency without a stored rate\<close>

lemma amount_without_rate:
  assumes "find_currency CURRENCY raw = Some (key, val)"
    and "last_exchange_rate d key = None"
    and "Decimal (py_replace (py_replace (py_replace raw val []) key []) '','' ''.'') = Some a"
  shows "get_amount_and_currency Decimal CURRENCY d raw = Inr (a, None, a)"
  unfolding amount_with_currency [OF assms(1)] using assms(2,3) by simp

text \<open>
  Claim C8 fails on the code. The token \<^verbatim>\<open>10u\<close> is ten units of the currency \<^verbatim>\<open>usd\<close>. Where
  no exchange rate of \<^verbatim>\<open>usd\<close> is stored, \<^verbatim>\<open>get_amount_and_currency\<close> returns the amount 10
  and no exchange rate, and \<^verbatim>\<open>new_expense\<close> stores an expense of amount 10 with no original
  currency and no original amount: the stored amount is the number of the foreign
  currency, not a value in the base currency. (The description stands for the text of
  the expense in the answer.)
\<close>

theorem stored_without_conversion:
  "find_currency example_currency ''10u'' = Some (''usd'', ''u'') \<and>
   last_exchange_rate example_empty ''usd'' = None \<and>
   get_amount_and_currency py_Decimal example_currency example_empty ''10u''
     = Inr (Finite False 10 0, None, Finite False 10 0) \<and>
   new_expense py_Decimal py_strptime expense_description example_today example_currency
       example_empty [''10u'', ''lunch''] ''ana'' 7
     = Inr (saved_text ''lunch'',
            example_empty\<lparr>expense_rows :=
              [\<lparr>expense_user = ''ana'', expense_group = 7, expense_description = ''lunch'',
                expense_amount = Finite False 10 0, expense_date = example_today,
                expense_original_currency = None, expense_original_amount = None,
                expense_tags = []\<rparr>]\<rparr>)"
proof -
  have l: "last_exchange_rate example_empty ''usd'' = None"
    by (simp add: last_exchange_rate_def example_empty_def)
  have r: "py_replace (py_replace (py_replace ''10u'' ''u'' []) ''usd'' []) '','' ''.'' = ''10''"
    by (simp add: py_replace_char py_replace_def replace_scan.simps startswith_def)
  have d: "py_Decimal (py_replace (py_replace (py_replace ''10u'' ''u'' []) ''usd'' []) '','' ''.'')
             = Some (Finite False 10 0)"
    unfolding r by (rule Decimal_10)
  have g: "get_amount_and_currency py_Decimal example_currency example_empty ''10u''
     = Inr (Finite False 10 0, None, Finite False 10 0)"
    using find_currency_10u l d by (rule amount_without_rate)
  have dec: "decode_expense_params py_Decimal py_strptime example_today example_currency
       example_empty [''10u'', ''lunch''] 7
     = Inr (\<lparr>data_amount = Finite False 10 0,
             data_exchange_rate = None,
             data_original_amount = Finite False 10 0,
             data_dd = example_today,
             data_tt = TT_None,
             data_description = ''lunch''\<rparr>,
            example_empty)"
    unfolding decode_expense_params_eq g
    by (simp add: modifier_eval date_eval tags_eval)
  have n: "new_expense py_Decimal py_strptime expense_description example_today example_currency
       example_empty [''10u'', ''lunch''] ''ana'' 7
     = Inr (saved_text ''lunch'',
            example_empty\<lparr>expense_rows :=
              [\<lparr>expense_user = ''ana'', expense_group = 7, expense_description = ''lunch'',
                expense_amount = Finite False 10 0, expense_date = example_today,
                expense_original_currency = None, expense_original_amount = None,
                expense_tags = []\<rparr>]\<rparr>)"
    unfolding new_expense_def dec by (simp add: build_expense_def example_empty_def)
  show ?thesis by (intro conjI) (rule find_currency_10u, rule l, rule g, rule n)
qed

text \<open>
  The same holds for every token in which a currency is found that has no stored rate:
  the number of the token is stored as the amount, with no original currency.
\<close>

lemma stored_without_rate:
  assumes "find_currency CURRENCY tok = Some (key, val)"
    and "last_exchange_rate d key = None"
    and "decode_expense_params Decimal strptime today CURRENCY d (tok # rest) grp = Inr (data, d')"
  shows "\<exists>a. Decimal (py_replace (py_replace (py_replace tok val []) key []) '','' ''.'') = Some a \<and>
             expense_amount (build_expense data usr grp) = a \<and>
             expense_original_currency (build_expense data usr grp) = None \<and>
             expense_original_amount (build_expense data usr grp) = None"
proof -
  from decode_Inr [OF assms(3)]
  obtain amount exchange_rate original_amount where
    a: "get_amount_and_currency Decimal CURRENCY d tok = Inr (amount, exchange_rate, original_amount)"
    and da: "data_amount data = amount" and de: "data_exchange_rate data = exchange_rate"
    by auto
  from a obtain x where
    x: "Decimal (py_replace (py_replace (py_replace tok val []) key []) '','' ''.'') = Some x"
    unfolding amount_with_currency [OF assms(1)] by (auto split: option.splits)
  from assms(1,2) x have "get_amount_and_currency Decimal CURRENCY d tok = Inr (x, None, x)"
    by (rule amount_without_rate)
  with a have "amount = x" "exchange_rate = None" by simp_all
  with da de x show ?thesis
    by (simp add: build_expense_def Let_def split: tt_value.splits)
qed

section \<open>The report of a group whose expenses sum to zero\<close>

lemmas report_eval =
  show_expenses_def db_sum_def exact_add_def sum_or_0_def
  percentage_def dec_div_def example_zero_sum_def example_group_def example_expense_def

lemma zero_sum_total:
  "dec_quantize (Finite False 0 (- 2)) (- 2) = Inr (Finite False 0 (- 2))"
  by (simp add: dec_quantize_def context_eval)

lemma quantize_1000: "dec_quantize (Finite False 1000 (- 2)) (- 2) = Inr (Finite False 1000 (- 2))"
  by (simp add: dec_quantize_def adjusted_def context_eval)

lemma quantize_m1000: "dec_quantize (Finite True 1000 (- 2)) (- 2) = Inr (Finite True 1000 (- 2))"
  by (simp add: dec_quantize_def adjusted_def context_eval)

text \<open>
  Claim C1 fails on the code. The group has two members and expenses 10.00 and -10.00;
  the total is 0.00, and the percentage of the first member divides 10.00 by it.
\<close>

theorem zero_total_division:
  "show_expenses example_zero_sum example_group = Inl DivisionByZero"
  by (simp add: report_eval zero_sum_total quantize_1000 quantize_m1000)

text \<open>
  The same holds for every group of more than one member whose total is zero after the
  rounding: the division for the first member raises, or an earlier rounding does, and no
  text is returned.
\<close>

lemma percentage_zero_total:
  assumes "\<not> dec_bool t"
  shows "\<exists>e. percentage user_total t = Inl e"
proof -
  from assms obtain s e where t: "t = Finite s 0 e" by (cases t) auto
  show ?thesis
  proof (cases "to_decimal user_total")
    case (Finite s1 c1 e1)
    then show ?thesis unfolding percentage_def t by (simp add: dec_div_def)
  next
    case (Infinity s1)
    then show ?thesis
      unfolding percentage_def t by (simp add: dec_div_def dec_mul_def check_nans_def)
  next
    case (NaN s1 p1)
    then show ?thesis
      unfolding percentage_def t by (simp add: dec_div_def dec_mul_def check_nans_def)
  next
    case (SNaN s1 p1)
    then show ?thesis
      unfolding percentage_def t by (simp add: dec_div_def dec_mul_def check_nans_def)
  qed
qed

lemma dict_set_not_Nil: "dict_set kvs k v \<noteq> []"
  by (cases kvs) (auto split: if_splits)

lemma user_amounts_not_Nil:
  "user_amounts qs us acc = Inr r \<Longrightarrow> us \<noteq> [] \<or> acc \<noteq> [] \<Longrightarrow> r \<noteq> []"
proof (induction us arbitrary: acc)
  case Nil
  then show ?case by simp
next
  case (Cons u us)
  from Cons.prems(1) obtain a where
    "user_amounts qs us (dict_set acc u a) = Inr r"
    by (auto simp: Let_def split: sum.splits)
  then show ?case using Cons.IH [of "dict_set acc u a"] dict_set_not_Nil [of acc u a] by simp
qed

lemma zero_total_raises:
  assumes "length (users grp) > 1"
    and "db_sum (map expense_amount (filter (\<lambda>e. expense_group e = chat_id grp) (expense_rows d))) = Some s"
    and "dec_quantize s (- 2) = Inr t"
    and "\<not> dec_bool t"
  shows "\<exists>e. show_expenses d grp = Inl e"
proof -
  let ?qs = "filter (\<lambda>e. expense_group e = chat_id grp) (expense_rows d)"
  have ne: "?qs \<noteq> []" using assms(2) by (auto simp: db_sum_def)
  show ?thesis
  proof (cases "user_amounts ?qs (users grp) []")
    case (Inl e)
    with ne assms show ?thesis by (simp add: show_expenses_def Let_def)
  next
    case (Inr r)
    have "users grp \<noteq> []" using assms(1) by auto
    then have "r \<noteq> []" using user_amounts_not_Nil [OF Inr] by simp
    then obtain usr user_total items where r: "r = (usr, user_total) # items"
      by (cases r) auto
    from percentage_zero_total [OF assms(4), of user_total]
    obtain e where "percentage user_total t = Inl e" by auto
    then have "\<And>text. user_lines t r text = Inl e" unfolding r by simp
    with ne assms Inr show ?thesis by (simp add: show_expenses_def Let_def)
  qed
qed

end
